theory Spec2Isabelle
  imports Main "HOL-Library.Word" "HOL-Library.Signed_Division"
begin

section \<open>Library boundary\<close>

text \<open>
  The program is three Go files: the Extensions API client (package \<open>extension\<close>), the
  telemetry listener (\<open>server/listener.go\<close>) and \<open>main.go\<close>. Everything it computes is
  control flow around calls into libraries: \<open>encoding/json\<close>, \<open>regexp\<close>, \<open>net/http\<close>, the
  CloudWatch Logs client, \<open>time\<close>, \<open>os\<close> and \<open>fmt\<close>. The embedding keeps the control flow
  as it is written and takes the library results as inputs:

  \<^item> \<open>json.Unmarshal(data, &v)\<close> on a fresh zero-valued \<open>v\<close> is a function from the bytes
    to the value left in \<open>v\<close> and the error returned (\<open>None\<close> is Go's \<open>nil\<close>);
  \<^item> a \<open>float64\<close> is a value of a type parameter \<open>'f\<close>: the program only decodes such
    values and prints them with \<open>%v\<close>;
  \<^item> a Go channel is its FIFO content and whether it has been closed; a send is given
    the capacity the channel was made with;
  \<^item> a call that has not returned (a send on a full channel, a receive on an empty open
    channel, a long poll or a client call that the scripted environment has no answer
    for) ends the run of the model with a status that says where it waits.
\<close>

datatype json_error = SyntaxError | UnmarshalTypeError

type_synonym 'a unmarshal = "string \<Rightarrow> 'a \<times> json_error option"

datatype panic = CloseOfNilChannel | CloseOfClosedChannel | SendOnClosedChannel

datatype 'a chan = NilChan | Chan (buf: "'a list") (closed: bool)

text \<open>
  How a piece of code that sends on a channel ends: it completes, or it panics, or it is
  blocked in a send on a nil channel (for ever) or on a full channel (until a receive
  makes room). Each case carries the state reached.
\<close>

datatype 'a blocking = Done 'a | Panic panic 'a | BlockedOnNil 'a | BlockedOnFull 'a

text \<open>
  \<open>ch <- x\<close> on a channel of capacity \<open>n\<close>: a nil channel blocks for ever, a closed one
  panics, an open one takes the value while it holds fewer than \<open>n\<close> values and blocks
  the sender when it is full.
\<close>

fun send :: "nat \<Rightarrow> 'a \<Rightarrow> 'a chan \<Rightarrow> 'a chan blocking" where
  "send n x NilChan = BlockedOnNil NilChan"
| "send n x (Chan q c) =
     (if c then Panic SendOnClosedChannel (Chan q c)
      else if length q < n then Done (Chan (q @ [x]) False)
      else BlockedOnFull (Chan q c))"

text \<open>\<open>close(ch)\<close>: closing a nil or an already closed channel panics.\<close>

fun close :: "'a chan \<Rightarrow> panic + 'a chan" where
  "close NilChan = Inl CloseOfNilChannel"
| "close (Chan q c) = (if c then Inl CloseOfClosedChannel else Inr (Chan q True))"

section \<open>server/listener.go\<close>

record UnknownEvent =
  ue_Time :: string
  ue_Type :: string
  ue_Record :: string

record PlatformInitStartEvent =
  InitializationType :: string
  Phase :: string
  RuntimeVersion :: string
  RuntimeVersionArn :: string

record PlatformStartEvent =
  start_RequestID :: string
  Version :: string

record 'f PlatformRuntimeDone =
  done_RequestID :: string
  done_DurationMs :: 'f

record 'f PlatformReportEvent =
  report_RequestID :: string
  report_DurationMs :: 'f
  BilledDurationMs :: "64 word"
  MemorySizeMb :: "64 word"
  MaxMemoryUsedMb :: "64 word"
  InitDurationMs :: "64 word"

text \<open>
  \<open>Event.Record\<close> is an \<open>interface{}\<close>; the listener stores a value of one of five types
  in it, and \<open>main\<close> switches on that type.
\<close>

datatype 'f record_value =
    InitStartRecord PlatformInitStartEvent
  | FunctionEvent string
  | StartRecord PlatformStartEvent
  | ReportRecord "'f PlatformReportEvent"
  | RuntimeDoneRecord "'f PlatformRuntimeDone"

record 'f Event =
  ev_Time :: string
  ev_Type :: string
  ev_Record :: "'f record_value"

text \<open>The decoders the handler calls, one per target type.\<close>

record 'f decoders =
  unmarshalSlice :: "UnknownEvent list unmarshal"
  unmarshalInitStart :: "PlatformInitStartEvent unmarshal"
  unmarshalString :: "string unmarshal"
  unmarshalStart :: "PlatformStartEvent unmarshal"
  unmarshalReport :: "'f PlatformReportEvent unmarshal"
  unmarshalRuntimeDone :: "'f PlatformRuntimeDone unmarshal"

text \<open>
  The package's globals \<open>httpServer\<close> (\<open>True\<close>: not nil) and \<open>Events\<close>, and what the process
  has written with \<open>log.Println\<close> (the operands joined by a space, without the time prefix).
\<close>

record 'f server_globals =
  httpServer :: bool
  Events :: "'f Event chan"
  logs :: "string list"

fun println :: "string list \<Rightarrow> string" where
  "println [] = []"
| "println [a] = a"
| "println (a # b # rest) = a @ '' '' @ println (b # rest)"

text \<open>The capacity of \<open>Events\<close>: \<open>Start\<close> makes it with \<open>make(chan Event, 1000)\<close>.\<close>

definition Events_capacity :: nat where
  "Events_capacity = 1000"

text \<open>\<open>Events <- e\<close>.\<close>

definition push :: "'f Event \<Rightarrow> ('f, 'z) server_globals_scheme \<Rightarrow> ('f, 'z) server_globals_scheme blocking" where
  "push e s = (case send Events_capacity e (Events s) of
       Done c \<Rightarrow> Done (s\<lparr>Events := c\<rparr>)
     | Panic p c \<Rightarrow> Panic p s
     | BlockedOnNil c \<Rightarrow> BlockedOnNil s
     | BlockedOnFull c \<Rightarrow> BlockedOnFull s)"

text \<open>The body of \<open>for _, evt := range slice\<close>: the \<open>switch evt.Type\<close>.\<close>

definition handle_envelope ::
  "'f decoders \<Rightarrow> UnknownEvent \<Rightarrow> ('f, 'z) server_globals_scheme \<Rightarrow> ('f, 'z) server_globals_scheme blocking" where
  "handle_envelope d evt s =
    (if ue_Type evt = ''platform.initStart'' then
       push \<lparr>ev_Time = ue_Time evt, ev_Type = ue_Type evt,
             ev_Record = InitStartRecord (fst (unmarshalInitStart d (ue_Record evt)))\<rparr> s
     else if ue_Type evt = ''function'' then
       push \<lparr>ev_Time = ue_Time evt, ev_Type = ue_Type evt,
             ev_Record = FunctionEvent (fst (unmarshalString d (ue_Record evt)))\<rparr> s
     else if ue_Type evt = ''platform.start'' then
       push \<lparr>ev_Time = ue_Time evt, ev_Type = ue_Type evt,
             ev_Record = StartRecord (fst (unmarshalStart d (ue_Record evt)))\<rparr> s
     else if ue_Type evt = ''platform.report'' then
       push \<lparr>ev_Time = ue_Time evt, ev_Type = ue_Type evt,
             ev_Record = ReportRecord (fst (unmarshalReport d (ue_Record evt)))\<rparr> s
     else if ue_Type evt = ''platform.runtimeDone'' then
       push \<lparr>ev_Time = ue_Time evt, ev_Type = ue_Type evt,
             ev_Record = RuntimeDoneRecord (fst (unmarshalRuntimeDone d (ue_Record evt)))\<rparr>
         (s\<lparr>logs := logs s @ [println [ue_Record evt]]\<rparr>)
     else if ue_Type evt = ''platform.extension'' then Done s
     else if ue_Type evt = ''platform.initReport'' then Done s
     else if ue_Type evt = ''platform.initRuntimeDone'' then Done s
     else if ue_Type evt = ''platform.telemetrySubscription'' then Done s
     else Done (s\<lparr>logs := logs s @ [println [''unknown event type'', ue_Type evt, ue_Record evt]]\<rparr>))"

text \<open>The loop over the decoded slice; a panic or a blocked send ends it where it happens.\<close>

fun handle_slice ::
  "'f decoders \<Rightarrow> UnknownEvent list \<Rightarrow> ('f, 'z) server_globals_scheme \<Rightarrow> ('f, 'z) server_globals_scheme blocking" where
  "handle_slice d [] s = Done s"
| "handle_slice d (evt # rest) s =
    (case handle_envelope d evt s of
       Done s' \<Rightarrow> handle_slice d rest s'
     | Panic p s' \<Rightarrow> Panic p s'
     | BlockedOnNil s' \<Rightarrow> BlockedOnNil s'
     | BlockedOnFull s' \<Rightarrow> BlockedOnFull s')"

text \<open>
  The HTTP handler. Its input is what \<open>io.ReadAll(r.Body)\<close> returned: an error text or
  the body. The error of decoding the body is discarded; the loop runs over whatever the
  decoder left in \<open>slice\<close>.
\<close>

definition handler ::
  "'f decoders \<Rightarrow> string + string \<Rightarrow> ('f, 'z) server_globals_scheme \<Rightarrow> ('f, 'z) server_globals_scheme blocking" where
  "handler d body s =
    (case body of
       Inl err \<Rightarrow> Done (s\<lparr>logs := logs s @ [println [''[listener:http_handler] Error reading body:'', err]]\<rparr>)
     | Inr b \<Rightarrow> handle_slice d (fst (unmarshalSlice d b)) s)"

text \<open>
  \<open>Start\<close>: the assignments to the globals and the returned address. It also registers
  the handler and starts the goroutine that serves; what that goroutine does when
  \<open>ListenAndServe\<close> returns is \<open>serve_goroutine\<close> below.
\<close>

definition server_Start :: "('f, 'z) server_globals_scheme \<Rightarrow> string \<times> ('f, 'z) server_globals_scheme" where
  "server_Start s = (''http://sandbox:4323/'', s\<lparr>httpServer := True, Events := Chan [] False\<rparr>)"

text \<open>
  \<open>Shutdown\<close>. The argument is the error returned by \<open>httpServer.Shutdown(ctx)\<close>, the
  graceful stop with a one second deadline (\<open>None\<close>: it succeeded).
\<close>

definition server_Shutdown ::
  "string option \<Rightarrow> ('f, 'z) server_globals_scheme \<Rightarrow> panic + ('f, 'z) server_globals_scheme" where
  "server_Shutdown err s =
    (if httpServer s then
       (case close (Events s) of
          Inl p \<Rightarrow> Inl p
        | Inr c \<Rightarrow>
            (case err of
               Some e \<Rightarrow> Inr (s\<lparr>Events := c,
                   logs := logs s @ [println [''[listener:Shutdown] Failed to shutdown http server gracefully:'', e]]\<rparr>)
             | None \<Rightarrow> Inr (s\<lparr>Events := c, httpServer := False\<rparr>)))
     else Inr s)"

text \<open>
  The goroutine started by \<open>Start\<close>, from the return of \<open>ListenAndServe\<close> on: on any
  error but \<open>http.ErrServerClosed\<close> it logs and calls \<open>Shutdown\<close>.
\<close>

datatype serve_error = ErrServerClosed | ServeError string

definition serve_goroutine ::
  "serve_error \<Rightarrow> string option \<Rightarrow> ('f, 'z) server_globals_scheme \<Rightarrow> panic + ('f, 'z) server_globals_scheme" where
  "serve_goroutine err stop s =
    (case err of
       ServeError e \<Rightarrow>
         server_Shutdown stop
           (s\<lparr>logs := logs s @ [println [''[listener:goroutine] Unexpected stop on Http Server:'', e]]\<rparr>)
     | ErrServerClosed \<Rightarrow>
         Inr (s\<lparr>logs := logs s @
           [println [''[listener:goroutine] Http Server closed:'', ''http: Server closed'']]\<rparr>))"

section \<open>api/extension: the next-event response\<close>

record Tracing =
  tr_Type :: string
  tr_Value :: string

record NextEventResponse =
  EventType :: string
  DeadlineMs :: "64 word"
  RequestID :: string
  InvokedFunctionArn :: string
  Tracing :: Tracing

definition extension_Invoke :: string where
  "extension_Invoke = ''INVOKE''"

definition extension_Shutdown :: string where
  "extension_Shutdown = ''SHUTDOWN''"

text \<open>
  What one turn of the polling loop observes: the context is already cancelled at the
  \<open>select\<close>, or \<open>EventNext\<close> returns an error, or it returns a response.
\<close>

datatype poll = CtxDone | EventNextError string | EventNextResponse NextEventResponse

section \<open>main.go\<close>

record Action =
  Action :: string
  Properties :: string

record LogSplitAction =
  LogGroupName :: string

record InputLogEvent =
  Message :: string
  Timestamp :: "64 word"

record PutLogEventsInput =
  put_LogGroupName :: string
  put_LogStreamName :: string
  LogEvents :: "InputLogEvent list"

text \<open>
  The calls made on the CloudWatch Logs client, in order, and the error a call returns:
  an \<open>smithy.APIError\<close> with its error code, or any other error.
\<close>

datatype client_call =
    PutLogEvents PutLogEventsInput
  | CreateLogGroup string
  | CreateLogStream string string

datatype client_error = APIError string | OtherError string

text \<open>
  The rest of the environment of \<open>main\<close>: the two decoders it calls, \<open>%v\<close> of a
  \<open>float64\<close>, the value of \<open>AWS_LAMBDA_FUNCTION_MEMORY_SIZE\<close>, the stream name computed
  at startup, and the reading \<open>time.Now().UnixNano()\<close> of the \<open>k\<close>-th call of the loop.
\<close>

record 'f proc_env =
  unmarshalAction :: "Action unmarshal"
  unmarshalLogSplitAction :: "LogSplitAction unmarshal"
  format_float :: "'f \<Rightarrow> string"
  memory_size :: string
  streamName :: string
  clock :: "nat \<Rightarrow> 64 word"

text \<open>
  The state \<open>main\<close> works on: the globals of package \<open>server\<close>, its own variables
  \<open>buffer\<close> and \<open>logGroupName\<close>, the calls made on the client so far and the number of
  clock readings taken.
\<close>

record 'f world = "'f server_globals" +
  buffer :: "string list"
  logGroupName :: string
  calls :: "client_call list"
  ticks :: nat

text \<open>
  \<open>pattern.FindStringSubmatch\<close> for the pattern \<open>::sst::(.+)\<close>: the leftmost place where
  the marker is followed by at least one character other than a newline; the group is
  the longest run of such characters. The result is empty (Go's \<open>nil\<close>) without a match,
  and the whole match followed by the group otherwise.
\<close>

fun FindStringSubmatch :: "string \<Rightarrow> string list" where
  "FindStringSubmatch [] = []"
| "FindStringSubmatch (c # cs) =
    (let g = takeWhile (\<lambda>x. x \<noteq> CHR 0x0A) (drop 7 (c # cs)) in
     if take 7 (c # cs) = ''::sst::'' \<and> g \<noteq> [] then [''::sst::'' @ g, g]
     else FindStringSubmatch cs)"

text \<open>\<open>case server.FunctionEvent\<close>: each \<open>continue\<close> leaves the state as it is.\<close>

definition on_FunctionEvent :: "('f, 'y) proc_env_scheme \<Rightarrow> string \<Rightarrow> ('f, 'z) world_scheme \<Rightarrow> ('f, 'z) world_scheme" where
  "on_FunctionEvent env v w =
    (let matches = FindStringSubmatch v in
     if length matches > 1 then
       (case unmarshalAction env (matches ! 1) of
          (action, Some err) \<Rightarrow> w
        | (action, None) \<Rightarrow>
            if Action action \<noteq> ''log.split'' then w
            else
              (case unmarshalLogSplitAction env (Properties action) of
                 (logSplitAction, Some err) \<Rightarrow> w
               | (logSplitAction, None) \<Rightarrow> w\<lparr>logGroupName := LogGroupName logSplitAction\<rparr>))
     else w\<lparr>buffer := buffer w @ [v]\<rparr>)"

text \<open>
  The inner \<open>for\<close> around \<open>client.PutLogEvents\<close>. The list holds the results the client
  will return to the calls, one per call, in order. The first component of the result
  says whether the loop was left by its \<open>break\<close>; it is \<open>False\<close> when the list ends while
  a call is pending. The results of the two create calls are assigned and never read.
\<close>

fun put_loop ::
  "('f, 'y) proc_env_scheme \<Rightarrow> PutLogEventsInput \<Rightarrow> client_error option list \<Rightarrow> ('f, 'z) world_scheme
     \<Rightarrow> bool \<times> client_error option list \<times> ('f, 'z) world_scheme" where
  "put_loop env put [] w = (False, [], w\<lparr>calls := calls w @ [PutLogEvents put]\<rparr>)"
| "put_loop env put (r # rs) w =
    (if r = Some (APIError ''ResourceNotFoundException'') then
       (case rs of
          [] \<Rightarrow> (False, [],
            w\<lparr>calls := calls w @ [PutLogEvents put, CreateLogGroup (logGroupName w)],
              logs := logs w @ [''Creating log group'']\<rparr>)
        | [g] \<Rightarrow> (False, [],
            w\<lparr>calls := calls w @ [PutLogEvents put, CreateLogGroup (logGroupName w),
                CreateLogStream (logGroupName w) (streamName env)],
              logs := logs w @ [''Creating log group'']\<rparr>)
        | g # s # rs' \<Rightarrow>
            put_loop env put rs'
              (w\<lparr>calls := calls w @ [PutLogEvents put, CreateLogGroup (logGroupName w),
                  CreateLogStream (logGroupName w) (streamName env)],
                logs := logs w @ [''Creating log group'']\<rparr>))
     else (True, rs, w\<lparr>calls := calls w @ [PutLogEvents put]\<rparr>))"

text \<open>The two lines \<open>case server.PlatformRuntimeDone\<close> appends.\<close>

definition end_line :: "'f PlatformRuntimeDone \<Rightarrow> string" where
  "end_line v = ''END RequestId: '' @ done_RequestID v"

definition report_line :: "('f, 'y) proc_env_scheme \<Rightarrow> 'f PlatformRuntimeDone \<Rightarrow> string" where
  "report_line env v =
     ''REPORT RequestId: '' @ done_RequestID v @ [CHR 0x09] @
     ''Duration: '' @ format_float env (done_DurationMs v) @ '' ms'' @ [CHR 0x09] @
     ''Billed Duration: '' @ format_float env (done_DurationMs v) @ '' ms'' @ [CHR 0x09] @
     ''Memory Size: '' @ memory_size env @ '' MB'' @ [CHR 0x09] @
     ''Max Memory Used: '' @ ''0'' @ '' MB''"

text \<open>
  One \<open>InputLogEvent\<close> per buffered message, each stamped with a clock reading of its
  own, in milliseconds (\<open>int64\<close> division truncates towards zero).
\<close>

definition log_events :: "('f, 'y) proc_env_scheme \<Rightarrow> nat \<Rightarrow> string list \<Rightarrow> InputLogEvent list" where
  "log_events env k msgs =
     map (\<lambda>(i, message). \<lparr>Message = message, Timestamp = word_of_int (sint (clock env i) sdiv 1000000)\<rparr>) (enumerate k msgs)"

text \<open>\<open>case server.PlatformRuntimeDone\<close> up to the \<open>break outerloop\<close>.\<close>

definition on_RuntimeDone ::
  "('f, 'y) proc_env_scheme \<Rightarrow> 'f PlatformRuntimeDone \<Rightarrow> client_error option list \<Rightarrow> ('f, 'z) world_scheme
     \<Rightarrow> bool \<times> client_error option list \<times> ('f, 'z) world_scheme" where
  "on_RuntimeDone env v rs w =
    (let w1 = w\<lparr>buffer := buffer w @ [end_line v]\<rparr>;
         w2 = w1\<lparr>buffer := buffer w1 @ [report_line env v]\<rparr>;
         w3 = w2\<lparr>logs := logs w2 @ [''flushing buffer'']\<rparr>;
         put = \<lparr>put_LogGroupName = logGroupName w3, put_LogStreamName = streamName env,
                LogEvents = log_events env (ticks w3) (buffer w3)\<rparr>;
         w4 = w3\<lparr>ticks := ticks w3 + length (buffer w3)\<rparr>
     in put_loop env put rs w4)"

text \<open>
  \<open>for evt := range server.Events\<close>, run on the content \<open>q\<close> of the channel and its
  closed flag \<open>c\<close>. The loop ends by \<open>break outerloop\<close> after a flush, or because the
  channel is closed and drained; it waits when the channel is open and empty, or when
  the client has not answered. A \<open>PlatformReportEvent\<close> matches no case of the switch.
  On exit \<open>Events\<close> holds what has not been received.
\<close>

datatype range_exit = BreakOuterloop | RangeEnded | WaitingForEvent | WaitingForClient

fun range_Events ::
  "('f, 'y) proc_env_scheme \<Rightarrow> 'f Event list \<Rightarrow> bool \<Rightarrow> client_error option list \<Rightarrow> ('f, 'z) world_scheme
     \<Rightarrow> range_exit \<times> client_error option list \<times> ('f, 'z) world_scheme" where
  "range_Events env [] c rs w =
     (if c then RangeEnded else WaitingForEvent, rs, w\<lparr>Events := Chan [] c\<rparr>)"
| "range_Events env (evt # q) c rs w =
    (case ev_Record evt of
       InitStartRecord v \<Rightarrow>
         range_Events env q c rs
           (w\<lparr>buffer := buffer w @
              [''INIT_START Runtime Version: '' @ RuntimeVersion v @
               '' Runtime Version ARN: '' @ RuntimeVersionArn v]\<rparr>)
     | StartRecord v \<Rightarrow>
         range_Events env q c rs
           (w\<lparr>buffer := buffer w @
              [''START RequestId: '' @ start_RequestID v @ '' Version: '' @ Version v]\<rparr>)
     | FunctionEvent v \<Rightarrow> range_Events env q c rs (on_FunctionEvent env v w)
     | RuntimeDoneRecord v \<Rightarrow>
         (case on_RuntimeDone env v rs (w\<lparr>Events := Chan q c\<rparr>) of
            (True, rs', w') \<Rightarrow> (BreakOuterloop, rs', w')
          | (False, rs', w') \<Rightarrow> (WaitingForClient, rs', w'))
     | ReportRecord v \<Rightarrow> range_Events env q c rs w)"

text \<open>
  The polling loop of \<open>main\<close>, run on what its turns observe. It returns (the process
  exits) on a cancelled context, on a poll error and on a \<open>SHUTDOWN\<close> event; an \<open>INVOKE\<close>
  event runs the loop over the channel; any other event type polls again. The run of
  the model also ends when a call is pending: a poll without an observation left, a
  receive on an empty open (or nil) channel, a client call without a result left.
\<close>

datatype main_exit = Returned | WaitingInEventNext | WaitingOnEvents | WaitingOnClient

fun main_loop ::
  "('f, 'y) proc_env_scheme \<Rightarrow> poll list \<Rightarrow> client_error option list \<Rightarrow> ('f, 'z) world_scheme
     \<Rightarrow> main_exit \<times> client_error option list \<times> ('f, 'z) world_scheme" where
  "main_loop env [] rs w = (WaitingInEventNext, rs, w)"
| "main_loop env (p # ps) rs w =
    (case p of
       CtxDone \<Rightarrow> (Returned, rs, w)
     | EventNextError err \<Rightarrow> (Returned, rs, w\<lparr>logs := logs w @ [println [''Exiting. Error:'', err]]\<rparr>)
     | EventNextResponse res \<Rightarrow>
         (let w1 = w\<lparr>logGroupName := [], buffer := []\<rparr> in
          if EventType res = extension_Invoke then
            (case Events w1 of
               NilChan \<Rightarrow> (WaitingOnEvents, rs, w1)
             | Chan q c \<Rightarrow>
                 (case range_Events env q c rs w1 of
                    (BreakOuterloop, rs', w') \<Rightarrow> main_loop env ps rs' w'
                  | (RangeEnded, rs', w') \<Rightarrow> main_loop env ps rs' w'
                  | (WaitingForEvent, rs', w') \<Rightarrow> (WaitingOnEvents, rs', w')
                  | (WaitingForClient, rs', w') \<Rightarrow> (WaitingOnClient, rs', w')))
          else if EventType res = extension_Shutdown then (Returned, rs, w1)
          else main_loop env ps rs w1))"

section \<open>Notions the properties are stated with\<close>

subsection \<open>The listener\<close>

text \<open>The type tags whose envelopes the handler turns into events.\<close>

definition recognized :: "string \<Rightarrow> bool" where
  "recognized ty \<longleftrightarrow>
     ty \<in> set [''platform.initStart'', ''platform.start'', ''platform.report'',
                ''platform.runtimeDone'', ''function'']"

text \<open>The event the handler builds for an envelope with a recognized tag.\<close>

definition event_of :: "'f decoders \<Rightarrow> UnknownEvent \<Rightarrow> 'f Event" where
  "event_of d evt =
     \<lparr>ev_Time = ue_Time evt, ev_Type = ue_Type evt,
      ev_Record =
        (if ue_Type evt = ''platform.initStart'' then
           InitStartRecord (fst (unmarshalInitStart d (ue_Record evt)))
         else if ue_Type evt = ''function'' then
           FunctionEvent (fst (unmarshalString d (ue_Record evt)))
         else if ue_Type evt = ''platform.start'' then
           StartRecord (fst (unmarshalStart d (ue_Record evt)))
         else if ue_Type evt = ''platform.report'' then
           ReportRecord (fst (unmarshalReport d (ue_Record evt)))
         else RuntimeDoneRecord (fst (unmarshalRuntimeDone d (ue_Record evt))))\<rparr>"

text \<open>The error \<open>json.Unmarshal\<close> returns for the record of an envelope, which the handler discards.\<close>

definition decode_error :: "'f decoders \<Rightarrow> UnknownEvent \<Rightarrow> json_error option" where
  "decode_error d evt =
     (if ue_Type evt = ''platform.initStart'' then snd (unmarshalInitStart d (ue_Record evt))
      else if ue_Type evt = ''function'' then snd (unmarshalString d (ue_Record evt))
      else if ue_Type evt = ''platform.start'' then snd (unmarshalStart d (ue_Record evt))
      else if ue_Type evt = ''platform.report'' then snd (unmarshalReport d (ue_Record evt))
      else if ue_Type evt = ''platform.runtimeDone'' then snd (unmarshalRuntimeDone d (ue_Record evt))
      else None)"

text \<open>What the handler logs for one envelope.\<close>

definition envelope_logs :: "UnknownEvent \<Rightarrow> string list" where
  "envelope_logs evt =
     (if ue_Type evt = ''platform.runtimeDone'' then [println [ue_Record evt]]
      else if recognized (ue_Type evt) \<or>
          ue_Type evt \<in> set [''platform.extension'', ''platform.initReport'',
                               ''platform.initRuntimeDone'', ''platform.telemetrySubscription'']
        then []
      else [println [''unknown event type'', ue_Type evt, ue_Record evt]])"

subsection \<open>The loop over the events\<close>

definition is_RuntimeDone :: "'f Event \<Rightarrow> bool" where
  "is_RuntimeDone evt = (case ev_Record evt of RuntimeDoneRecord v \<Rightarrow> True | _ \<Rightarrow> False)"

text \<open>One turn of the loop over the channel for an event that is not a \<open>PlatformRuntimeDone\<close>.\<close>

definition accumulate_event ::
  "('f, 'y) proc_env_scheme \<Rightarrow> 'f Event \<Rightarrow> ('f, 'z) world_scheme \<Rightarrow> ('f, 'z) world_scheme" where
  "accumulate_event env evt w =
     (case ev_Record evt of
        InitStartRecord v \<Rightarrow>
          w\<lparr>buffer := buffer w @
              [''INIT_START Runtime Version: '' @ RuntimeVersion v @
               '' Runtime Version ARN: '' @ RuntimeVersionArn v]\<rparr>
      | StartRecord v \<Rightarrow>
          w\<lparr>buffer := buffer w @
              [''START RequestId: '' @ start_RequestID v @ '' Version: '' @ Version v]\<rparr>
      | FunctionEvent v \<Rightarrow> on_FunctionEvent env v w
      | ReportRecord v \<Rightarrow> w
      | RuntimeDoneRecord v \<Rightarrow> w)"

definition accumulate ::
  "('f, 'y) proc_env_scheme \<Rightarrow> 'f Event list \<Rightarrow> ('f, 'z) world_scheme \<Rightarrow> ('f, 'z) world_scheme" where
  "accumulate env evs w = foldl (\<lambda>w' evt. accumulate_event env evt w') w evs"

text \<open>
  The group a log line sets: the line matches the marker, its payload decodes to an
  action \<open>log.split\<close>, and the properties of the action decode. These are the tests on the
  path of \<open>on_FunctionEvent\<close> to the assignment of \<open>logGroupName\<close>.
\<close>

definition directive :: "('f, 'y) proc_env_scheme \<Rightarrow> string \<Rightarrow> string option" where
  "directive env v =
     (case FindStringSubmatch v of
        [whole, payload] \<Rightarrow>
          (case unmarshalAction env payload of
             (action, None) \<Rightarrow>
               if Action action = ''log.split'' then
                 (case unmarshalLogSplitAction env (Properties action) of
                    (logSplitAction, None) \<Rightarrow> Some (LogGroupName logSplitAction)
                  | (logSplitAction, Some err) \<Rightarrow> None)
               else None
           | (action, Some err) \<Rightarrow> None)
      | _ \<Rightarrow> None)"

text \<open>The groups set by the log lines among the events, in the order of the events.\<close>

definition directives :: "('f, 'y) proc_env_scheme \<Rightarrow> 'f Event list \<Rightarrow> string list" where
  "directives env evs =
     List.map_filter (\<lambda>evt. case ev_Record evt of FunctionEvent v \<Rightarrow> directive env v | _ \<Rightarrow> None) evs"

text \<open>How a finished or pending flush ends the loop over the channel.\<close>

definition after_flush ::
  "bool \<times> client_error option list \<times> ('f, 'z) world_scheme
     \<Rightarrow> range_exit \<times> client_error option list \<times> ('f, 'z) world_scheme" where
  "after_flush r = (case r of (True, x) \<Rightarrow> (BreakOuterloop, x) | (False, x) \<Rightarrow> (WaitingForClient, x))"

subsection \<open>Example inputs\<close>

text \<open>
  A decoder given by a table: the pairs list, for the inputs the examples use, the value
  \<open>json.Unmarshal\<close> leaves and the error it returns. In the examples a \<open>float64\<close> is
  written as its \<open>%v\<close> text.
\<close>

definition table_unmarshal :: "'a \<Rightarrow> (string \<times> 'a \<times> json_error option) list \<Rightarrow> 'a unmarshal" where
  "table_unmarshal zero tab data =
     (case map_of tab data of Some r \<Rightarrow> r | None \<Rightarrow> (zero, Some SyntaxError))"

definition example_decoders :: "string decoders" where
  \<open>example_decoders =
     \<lparr>unmarshalSlice = table_unmarshal [] [],
      unmarshalInitStart =
        table_unmarshal
          \<lparr>InitializationType = [], Phase = [], RuntimeVersion = [], RuntimeVersionArn = []\<rparr> [],
      unmarshalString =
        table_unmarshal []
          [(''"hello"'', (''hello'', None)),
           (''{"a":1}'', ([], Some UnmarshalTypeError))],
      unmarshalStart =
        table_unmarshal \<lparr>start_RequestID = [], Version = []\<rparr>
          [(''{"requestId":"r1","version":"$LATEST"}'',
            (\<lparr>start_RequestID = ''r1'', Version = ''$LATEST''\<rparr>, None))],
      unmarshalReport =
        table_unmarshal
          \<lparr>report_RequestID = [], report_DurationMs = ''0'', BilledDurationMs = 0,
            MemorySizeMb = 0, MaxMemoryUsedMb = 0, InitDurationMs = 0\<rparr> [],
      unmarshalRuntimeDone =
        table_unmarshal \<lparr>done_RequestID = [], done_DurationMs = ''0''\<rparr>
          [(''{"requestId":"r1","metrics":{"durationMs":12.3}}'',
            (\<lparr>done_RequestID = ''r1'', done_DurationMs = ''12.3''\<rparr>, None))]\<rparr>\<close>

definition example_env :: "string proc_env" where
  \<open>example_env =
     \<lparr>unmarshalAction =
        table_unmarshal \<lparr>Action = [], Properties = []\<rparr>
          [(''{"action":"log.split","properties":{"logGroupName":"/my/group"}}'',
            (\<lparr>Action = ''log.split'', Properties = ''{"logGroupName":"/my/group"}''\<rparr>, None)),
           (''{"action":"log.split","properties":{"logGroupName":"/other"}}'',
            (\<lparr>Action = ''log.split'', Properties = ''{"logGroupName":"/other"}''\<rparr>, None)),
           (''{"action":"log.split","properties":{}}'',
            (\<lparr>Action = ''log.split'', Properties = ''{}''\<rparr>, None)),
           (''{'', (\<lparr>Action = [], Properties = []\<rparr>, Some SyntaxError))],
      unmarshalLogSplitAction =
        table_unmarshal \<lparr>LogGroupName = []\<rparr>
          [(''{"logGroupName":"/my/group"}'', (\<lparr>LogGroupName = ''/my/group''\<rparr>, None)),
           (''{"logGroupName":"/other"}'', (\<lparr>LogGroupName = ''/other''\<rparr>, None)),
           (''{}'', (\<lparr>LogGroupName = []\<rparr>, None))],
      format_float = (\<lambda>x. x),
      memory_size = ''128'',
      streamName = ''2026/01/01/stream'',
      clock = (\<lambda>k. 1700000000000000000)\<rparr>\<close>

text \<open>The state after \<open>server.Start\<close>, before anything has arrived.\<close>

definition started :: "string world" where
  "started = \<lparr>httpServer = True, Events = Chan [] False, logs = [],
              buffer = [], logGroupName = [], calls = [], ticks = 0\<rparr>"

definition function_event :: "string \<Rightarrow> string Event" where
  "function_event v = \<lparr>ev_Time = ''t'', ev_Type = ''function'', ev_Record = FunctionEvent v\<rparr>"

definition runtimeDone_event :: "string \<Rightarrow> string \<Rightarrow> string Event" where
  "runtimeDone_event rid d =
     \<lparr>ev_Time = ''t'', ev_Type = ''platform.runtimeDone'',
      ev_Record = RuntimeDoneRecord \<lparr>done_RequestID = rid, done_DurationMs = d\<rparr>\<rparr>"

definition next_event :: "string \<Rightarrow> string \<Rightarrow> NextEventResponse" where
  "next_event ty rid =
     \<lparr>EventType = ty, DeadlineMs = 0, RequestID = rid, InvokedFunctionArn = ''arn'',
      Tracing = \<lparr>tr_Type = [], tr_Value = []\<rparr>\<rparr>"

section \<open>Auxiliary facts\<close>

subsection \<open>The loop around \<open>PutLogEvents\<close>\<close>

text \<open>The loop touches nothing but the record of calls and the log.\<close>

lemma put_loop_frame:
  "put_loop env put rs w = (b, rs', w') \<Longrightarrow>
     Events w' = Events w \<and> httpServer w' = httpServer w \<and> buffer w' = buffer w \<and>
     logGroupName w' = logGroupName w \<and> ticks w' = ticks w"
proof (induction env put rs w arbitrary: b rs' w' rule: put_loop.induct)
  case (1 env put w)
  then show ?case by auto
next
  case (2 env put r rs w)
  show ?case
  proof (cases "r = Some (APIError ''ResourceNotFoundException'')")
    case False
    with 2(2) show ?thesis by auto
  next
    case True
    show ?thesis
    proof (cases rs)
      case Nil
      with True 2(2) show ?thesis by auto
    next
      case (Cons g rs1)
      show ?thesis
      proof (cases rs1)
        case Nil
        with True Cons 2(2) show ?thesis by auto
      next
        case (Cons s rs2)
        with True \<open>rs = g # rs1\<close> 2(2) 2(1)[OF True \<open>rs = g # rs1\<close> Cons, of b rs' w']
        show ?thesis by simp
      qed
    qed
  qed
qed

text \<open>Its first call is the put, and every put it makes is this same put.\<close>

lemma put_loop_calls:
  "\<exists>more. calls (snd (snd (put_loop env put rs w))) = calls w @ PutLogEvents put # more \<and>
     (\<forall>p. PutLogEvents p \<in> set more \<longrightarrow> p = put)"
proof (induction env put rs w rule: put_loop.induct)
  case (1 env put w)
  then show ?case by simp
next
  case (2 env put r rs w)
  show ?case
  proof (cases "r = Some (APIError ''ResourceNotFoundException'')")
    case False
    then show ?thesis by simp
  next
    case True
    show ?thesis
    proof (cases rs)
      case Nil
      with True show ?thesis by simp
    next
      case (Cons g rs1)
      show ?thesis
      proof (cases rs1)
        case Nil
        with True Cons show ?thesis by simp
      next
        case (Cons s rs2)
        from 2[OF True \<open>rs = g # rs1\<close> Cons]
        obtain more where m: "calls (snd (snd (put_loop env put rs2
              (w\<lparr>calls := calls w @ [PutLogEvents put, CreateLogGroup (logGroupName w),
                  CreateLogStream (logGroupName w) (streamName env)],
                logs := logs w @ [''Creating log group'']\<rparr>)))) =
            (calls w @ [PutLogEvents put, CreateLogGroup (logGroupName w),
                  CreateLogStream (logGroupName w) (streamName env)]) @ PutLogEvents put # more"
          and a: "\<forall>p. PutLogEvents p \<in> set more \<longrightarrow> p = put"
          by auto
        show ?thesis
          apply (rule exI[of _ "[CreateLogGroup (logGroupName w),
                  CreateLogStream (logGroupName w) (streamName env), PutLogEvents put] @ more"])
          using True \<open>rs = g # rs1\<close> Cons m a by auto
      qed
    qed
  qed
qed

subsection \<open>Log lines\<close>

text \<open>The pattern has one group: the result is empty or has exactly two entries.\<close>

lemma FindStringSubmatch_shape:
  "FindStringSubmatch v = [] \<or> (\<exists>g. g \<noteq> [] \<and> FindStringSubmatch v = [''::sst::'' @ g, g])"
  by (induction v) (auto simp: Let_def)

lemma on_FunctionEvent_no_match:
  "FindStringSubmatch v = [] \<Longrightarrow> on_FunctionEvent env v w = w\<lparr>buffer := buffer w @ [v]\<rparr>"
  by (simp add: on_FunctionEvent_def)

lemma directive_no_match:
  "FindStringSubmatch v = [] \<Longrightarrow> directive env v = None"
  by (simp add: directive_def)

lemma on_FunctionEvent_match:
  "FindStringSubmatch v = [whole, payload] \<Longrightarrow>
     on_FunctionEvent env v w =
       (case unmarshalAction env payload of
          (action, Some err) \<Rightarrow> w
        | (action, None) \<Rightarrow>
            if Action action \<noteq> ''log.split'' then w
            else
              (case unmarshalLogSplitAction env (Properties action) of
                 (logSplitAction, Some err) \<Rightarrow> w
               | (logSplitAction, None) \<Rightarrow> w\<lparr>logGroupName := LogGroupName logSplitAction\<rparr>))"
  by (simp add: on_FunctionEvent_def)

text \<open>A log line sets the group, or is dropped, or is appended.\<close>

lemma on_FunctionEvent_directive:
  "on_FunctionEvent env v w =
     (case directive env v of
        Some g \<Rightarrow> w\<lparr>logGroupName := g\<rparr>
      | None \<Rightarrow> if FindStringSubmatch v = [] then w\<lparr>buffer := buffer w @ [v]\<rparr> else w)"
proof -
  consider "FindStringSubmatch v = []"
    | g where "FindStringSubmatch v = [''::sst::'' @ g, g]"
    using FindStringSubmatch_shape [of v] by blast
  then show ?thesis
  proof cases
    case 1
    then show ?thesis by (simp add: on_FunctionEvent_no_match directive_no_match)
  next
    case 2
    obtain a e where a: "unmarshalAction env g = (a, e)" by (cases "unmarshalAction env g")
    obtain l e' where l: "unmarshalLogSplitAction env (Properties a) = (l, e')"
      by (cases "unmarshalLogSplitAction env (Properties a)")
    show ?thesis
      unfolding on_FunctionEvent_match [OF 2] directive_def 2
      by (cases e; cases e') (simp_all add: a l)
  qed
qed

subsection \<open>The loop over the channel\<close>

lemma accumulate_Nil: "accumulate env [] w = w"
  by (simp add: accumulate_def)

lemma accumulate_Cons:
  "accumulate env (e # evs) w = accumulate env evs (accumulate_event env e w)"
  by (simp add: accumulate_def)

lemma accumulate_append:
  "accumulate env (evs @ evs') w = accumulate env evs' (accumulate env evs w)"
  by (simp add: accumulate_def)

lemma range_Events_step:
  "\<not> is_RuntimeDone e \<Longrightarrow>
     range_Events env (e # q) c rs w = range_Events env q c rs (accumulate_event env e w)"
  by (cases "ev_Record e") (simp_all add: accumulate_event_def is_RuntimeDone_def)

text \<open>Events before the first \<open>PlatformRuntimeDone\<close> are accumulated one by one.\<close>

lemma range_Events_accumulate:
  "\<forall>e\<in>set evs. \<not> is_RuntimeDone e \<Longrightarrow>
     range_Events env (evs @ q) c rs w = range_Events env q c rs (accumulate env evs w)"
proof (induction evs arbitrary: w)
  case Nil
  then show ?case by (simp add: accumulate_Nil)
next
  case (Cons e evs)
  then show ?case by (simp add: accumulate_Cons range_Events_step del: range_Events.simps)
qed

lemma range_Events_RuntimeDone:
  "ev_Record evt = RuntimeDoneRecord v \<Longrightarrow>
     range_Events env (evt # q) c rs w = after_flush (on_RuntimeDone env v rs (w\<lparr>Events := Chan q c\<rparr>))"
  by (simp add: after_flush_def split: prod.splits bool.splits)

lemma directives_Nil: "directives env [] = []"
  by (simp add: directives_def List.map_filter_simps)

lemma directives_Cons:
  "directives env (e # evs) =
     (case ev_Record e of
        FunctionEvent v \<Rightarrow>
          (case directive env v of Some g \<Rightarrow> g # directives env evs | None \<Rightarrow> directives env evs)
      | _ \<Rightarrow> directives env evs)"
  by (cases "ev_Record e") (simp_all add: directives_def List.map_filter_simps split: option.splits)

lemma accumulate_event_logGroupName:
  "logGroupName (accumulate_event env e w) =
     (case ev_Record e of
        FunctionEvent v \<Rightarrow> (case directive env v of Some g \<Rightarrow> g | None \<Rightarrow> logGroupName w)
      | _ \<Rightarrow> logGroupName w)"
  by (cases "ev_Record e")
    (simp_all add: accumulate_event_def on_FunctionEvent_directive split: option.splits)

text \<open>The variable holds the group of the last directive seen, if there was one.\<close>

lemma accumulate_logGroupName:
  "logGroupName (accumulate env evs w) =
     (if directives env evs = [] then logGroupName w else last (directives env evs))"
proof (induction evs arbitrary: w)
  case Nil
  then show ?case by (simp add: accumulate_Nil directives_Nil)
next
  case (Cons e evs)
  show ?case
    unfolding accumulate_Cons Cons directives_Cons accumulate_event_logGroupName
    by (simp split: record_value.splits option.splits)
qed

lemma accumulate_event_calls: "calls (accumulate_event env e w) = calls w"
  by (cases "ev_Record e")
    (simp_all add: accumulate_event_def on_FunctionEvent_directive split: option.splits)

lemma accumulate_calls: "calls (accumulate env evs w) = calls w"
  by (induction evs arbitrary: w) (simp_all add: accumulate_Nil accumulate_Cons accumulate_event_calls)

lemma on_RuntimeDone_put_loop:
  "on_RuntimeDone env v rs w =
     put_loop env
       \<lparr>put_LogGroupName = logGroupName w, put_LogStreamName = streamName env,
        LogEvents = log_events env (ticks w) (buffer w @ [end_line v, report_line env v])\<rparr> rs
       (w\<lparr>buffer := buffer w @ [end_line v, report_line env v],
          logs := logs w @ [''flushing buffer''],
          ticks := ticks w + (length (buffer w) + 2)\<rparr>)"
  by (simp add: on_RuntimeDone_def Let_def)

text \<open>A flush starts with a put to the group held in \<open>logGroupName\<close>; later puts go there too.\<close>

lemma on_RuntimeDone_calls:
  "\<exists>more. calls (snd (snd (on_RuntimeDone env v rs w))) =
      calls w @ PutLogEvents \<lparr>put_LogGroupName = logGroupName w, put_LogStreamName = streamName env,
         LogEvents = log_events env (ticks w) (buffer w @ [end_line v, report_line env v])\<rparr> # more \<and>
     (\<forall>p. PutLogEvents p \<in> set more \<longrightarrow> put_LogGroupName p = logGroupName w)"
proof -
  let ?put = "\<lparr>put_LogGroupName = logGroupName w, put_LogStreamName = streamName env,
         LogEvents = log_events env (ticks w) (buffer w @ [end_line v, report_line env v])\<rparr>"
  let ?w = "w\<lparr>buffer := buffer w @ [end_line v, report_line env v],
       logs := logs w @ [''flushing buffer''],
       ticks := ticks w + (length (buffer w) + 2)\<rparr>"
  obtain more where "calls (snd (snd (put_loop env ?put rs ?w))) = calls ?w @ PutLogEvents ?put # more"
    and "\<forall>p. PutLogEvents p \<in> set more \<longrightarrow> p = ?put"
    using put_loop_calls [of env ?put rs ?w] by blast
  then show ?thesis unfolding on_RuntimeDone_put_loop by (intro exI[of _ more]) auto
qed

lemma after_flush_world: "snd (snd (after_flush r)) = snd (snd r)"
  by (cases r) (auto simp: after_flush_def split: bool.splits)

lemma put_loop_kept:
  "Events (snd (snd (put_loop env put rs w))) = Events w \<and>
   buffer (snd (snd (put_loop env put rs w))) = buffer w \<and>
   logGroupName (snd (snd (put_loop env put rs w))) = logGroupName w"
  using put_loop_frame [of env put rs w "fst (put_loop env put rs w)"
      "fst (snd (put_loop env put rs w))" "snd (snd (put_loop env put rs w))"]
  by simp

subsection \<open>The handler\<close>

text \<open>An envelope without a recognized tag sends nothing.\<close>

lemma handle_envelope_other:
  "\<not> recognized (ue_Type evt) \<Longrightarrow>
     handle_envelope d evt s = Done (s\<lparr>logs := logs s @ envelope_logs evt\<rparr>)"
  by (simp add: handle_envelope_def recognized_def envelope_logs_def)

text \<open>An envelope with a recognized tag sends its event, after writing its log line if it
  has one, whether or not its record decoded.\<close>

lemma handle_envelope_recognized:
  "recognized (ue_Type evt) \<Longrightarrow>
     handle_envelope d evt s = push (event_of d evt) (s\<lparr>logs := logs s @ envelope_logs evt\<rparr>)"
  by (auto simp: handle_envelope_def recognized_def envelope_logs_def event_of_def)

lemma push_open:
  "Events s = Chan q False \<Longrightarrow> length q < Events_capacity \<Longrightarrow>
     push e s = Done (s\<lparr>Events := Chan (q @ [e]) False\<rparr>)"
  by (simp add: push_def)

lemma push_closed:
  "Events s = Chan q True \<Longrightarrow> push e s = Panic SendOnClosedChannel s"
  by (simp add: push_def)

lemma push_full:
  "Events s = Chan q False \<Longrightarrow> \<not> length q < Events_capacity \<Longrightarrow> push e s = BlockedOnFull s"
  by (simp add: push_def)

text \<open>On an open channel with room the loop over a batch ends normally, with one event
  queued per recognized envelope.\<close>

lemma handle_slice_open:
  "Events s = Chan q False \<Longrightarrow>
   length q + length (filter (\<lambda>e. recognized (ue_Type e)) batch) \<le> Events_capacity \<Longrightarrow>
   handle_slice d batch s =
     Done (s\<lparr>Events := Chan (q @ map (event_of d) (filter (\<lambda>e. recognized (ue_Type e)) batch)) False,
             logs := logs s @ concat (map envelope_logs batch)\<rparr>)"
proof (induction batch arbitrary: s q)
  case Nil
  then show ?case by simp
next
  case (Cons evt batch)
  show ?case
  proof (cases "recognized (ue_Type evt)")
    case False
    let ?s = "s\<lparr>logs := logs s @ envelope_logs evt\<rparr>"
    have "Events ?s = Chan q False"
      using Cons.prems(1) by simp
    moreover have "length q + length (filter (\<lambda>e. recognized (ue_Type e)) batch) \<le> Events_capacity"
      using Cons.prems(2) False by simp
    ultimately show ?thesis
      using Cons.IH [of ?s q] False by (simp add: handle_envelope_other)
  next
    case True
    let ?l = "s\<lparr>logs := logs s @ envelope_logs evt\<rparr>"
    let ?s = "?l\<lparr>Events := Chan (q @ [event_of d evt]) False\<rparr>"
    have room: "length q < Events_capacity"
      using Cons.prems(2) True by simp
    have l: "Events ?l = Chan q False"
      using Cons.prems(1) by simp
    have step: "handle_envelope d evt s = Done ?s"
      using True by (simp add: handle_envelope_recognized push_open [OF l room])
    have "Events ?s = Chan (q @ [event_of d evt]) False"
      by simp
    moreover have "length (q @ [event_of d evt]) +
        length (filter (\<lambda>e. recognized (ue_Type e)) batch) \<le> Events_capacity"
      using Cons.prems(2) True by simp
    ultimately show ?thesis
      using Cons.IH [of ?s "q @ [event_of d evt]"] True step by simp
  qed
qed

text \<open>Once a call of \<open>Shutdown\<close> has stopped the server, a later call does nothing.\<close>

lemma Shutdown_after_success:
  "server_Shutdown None s = Inr s' \<Longrightarrow> server_Shutdown err s' = Inr s'"
  by (auto simp: server_Shutdown_def split: if_splits sum.splits)

subsection \<open>The example inputs\<close>

lemma example_directive_my_group:
  \<open>directive example_env
     ''::sst::{"action":"log.split","properties":{"logGroupName":"/my/group"}}'' = Some ''/my/group''\<close>
  by code_simp

lemma example_directive_other:
  \<open>directive example_env
     ''x ::sst::{"action":"log.split","properties":{"logGroupName":"/other"}}'' = Some ''/other''\<close>
  by code_simp

lemma example_directive_hello: "directive example_env ''hello'' = None"
  by code_simp

section \<open>The sink: create once, then retry (C5)\<close>

text \<open>
  Claim C5. The put is answered \<open>ResourceNotFoundException\<close> once: the loop calls
  \<open>CreateLogGroup\<close> once and \<open>CreateLogStream\<close> once, for the group and the stream of the
  flush, and puts a second time; that put succeeds and the loop ends. The answers \<open>g\<close>
  and \<open>s\<close> of the two create calls are arbitrary: an "already exists" error, like any
  other, is ignored.
\<close>

theorem put_creates_once_then_retries:
  "put_loop env put (Some (APIError ''ResourceNotFoundException'') # g # s # None # rs) w =
     (True, rs,
      w\<lparr>calls := calls w @ [PutLogEvents put, CreateLogGroup (logGroupName w),
            CreateLogStream (logGroupName w) (streamName env), PutLogEvents put],
        logs := logs w @ [''Creating log group'']\<rparr>)"
  by simp

section \<open>The last directive wins (C2)\<close>

text \<open>
  Claim C2 says that the flush goes to the group of the last valid \<open>log.split\<close>
  directive with a \<open>logGroupName\<close>. The code does not test for a name: a \<open>log.split\<close>
  line whose properties decode and name no group assigns the empty string. After a
  directive for \<open>/my/group\<close> and one for \<open>/other\<close>, such a line makes the flush go to
  the empty group, not to \<open>/other\<close>.
\<close>

theorem flush_target_counterexample:
  \<open>directive example_env
     ''::sst::{"action":"log.split","properties":{"logGroupName":"/my/group"}}'' = Some ''/my/group'' \<and>
   directive example_env
     ''x ::sst::{"action":"log.split","properties":{"logGroupName":"/other"}}'' = Some ''/other'' \<and>
   unmarshalAction example_env
     (FindStringSubmatch ''::sst::{"action":"log.split","properties":{}}'' ! 1) =
     (\<lparr>Action = ''log.split'', Properties = ''{}''\<rparr>, None) \<and>
   unmarshalLogSplitAction example_env ''{}'' = (\<lparr>LogGroupName = []\<rparr>, None) \<and>
   calls (snd (snd (range_Events example_env
      [function_event ''::sst::{"action":"log.split","properties":{"logGroupName":"/my/group"}}'',
       function_event ''x ::sst::{"action":"log.split","properties":{"logGroupName":"/other"}}'',
       function_event ''::sst::{"action":"log.split","properties":{}}'',
       runtimeDone_event ''r1'' ''12.3''] False [None] started))) =
     [PutLogEvents \<lparr>put_LogGroupName = [], put_LogStreamName = ''2026/01/01/stream'',
        LogEvents = [\<lparr>Message = ''END RequestId: r1'', Timestamp = 1700000000000\<rparr>,
          \<lparr>Message = ''REPORT RequestId: r1'' @ [CHR 0x09] @ ''Duration: 12.3 ms'' @ [CHR 0x09] @
            ''Billed Duration: 12.3 ms'' @ [CHR 0x09] @ ''Memory Size: 128 MB'' @ [CHR 0x09] @
            ''Max Memory Used: 0 MB'', Timestamp = 1700000000000\<rparr>]\<rparr>] \<and>
   ''/other'' \<noteq> ([] :: string)\<close>
  by code_simp

text \<open>
  Claim C2 as amended. A directive is a log line that matches the marker, whose payload
  decodes to an action \<open>log.split\<close> and whose properties decode; its group is the
  \<open>logGroupName\<close> of the properties, the empty string when they name none. The events
  received before the first \<open>PlatformRuntimeDone\<close> hold at least one directive, and \<open>g\<close>
  is the group of the last one. Then the flush that the \<open>PlatformRuntimeDone\<close> starts
  puts to \<open>g\<close>: the calls it adds begin with a \<open>PutLogEvents\<close> whose group is \<open>g\<close>, and
  every retry goes to \<open>g\<close> too.
\<close>

theorem flush_target_is_last_directive:
  assumes nd: "\<forall>e\<in>set evs. \<not> is_RuntimeDone e"
    and ds: "directives env evs = ds @ [g]"
    and dn: "ev_Record evt = RuntimeDoneRecord v"
  shows "\<exists>p more.
     calls (snd (snd (range_Events env (evs @ evt # q) c rs w))) = calls w @ PutLogEvents p # more \<and>
     put_LogGroupName p = g \<and> (\<forall>p'. PutLogEvents p' \<in> set more \<longrightarrow> put_LogGroupName p' = g)"
proof -
  let ?w = "(accumulate env evs w)\<lparr>Events := Chan q c\<rparr>"
  have g: "logGroupName ?w = g"
    using ds by (simp add: accumulate_logGroupName)
  have c: "calls ?w = calls w"
    by (simp add: accumulate_calls)
  have "range_Events env (evs @ evt # q) c rs w = after_flush (on_RuntimeDone env v rs ?w)"
    using nd dn by (simp add: range_Events_accumulate range_Events_RuntimeDone del: range_Events.simps)
  then have "calls (snd (snd (range_Events env (evs @ evt # q) c rs w))) =
      calls (snd (snd (on_RuntimeDone env v rs ?w)))"
    by (simp add: after_flush_world)
  with on_RuntimeDone_calls [of env v rs ?w] g c show ?thesis
    by (metis PutLogEventsInput.select_convs(1))
qed

text \<open>
  Two directives with different groups and an ordinary line between them, then the
  \<open>PlatformRuntimeDone\<close>: the put goes to the group of the second directive.
\<close>

theorem flush_target_is_last_directive_witness:
  \<open>\<not> is_RuntimeDone (function_event ''::sst::{"action":"log.split","properties":{"logGroupName":"/my/group"}}'') \<and>
   \<not> is_RuntimeDone (function_event ''hello'') \<and>
   \<not> is_RuntimeDone (function_event ''x ::sst::{"action":"log.split","properties":{"logGroupName":"/other"}}'') \<and>
   directives example_env
     [function_event ''::sst::{"action":"log.split","properties":{"logGroupName":"/my/group"}}'',
      function_event ''hello'',
      function_event ''x ::sst::{"action":"log.split","properties":{"logGroupName":"/other"}}''] =
     [''/my/group''] @ [''/other''] \<and>
   (\<exists>p more.
     calls (snd (snd (range_Events example_env
        ([function_event ''::sst::{"action":"log.split","properties":{"logGroupName":"/my/group"}}'',
          function_event ''hello'',
          function_event ''x ::sst::{"action":"log.split","properties":{"logGroupName":"/other"}}''] @
         runtimeDone_event ''r1'' ''12.3'' # []) False [None] started))) =
       calls started @ PutLogEvents p # more \<and>
     put_LogGroupName p = ''/other'' \<and>
     (\<forall>p'. PutLogEvents p' \<in> set more \<longrightarrow> put_LogGroupName p' = ''/other''))\<close>
proof -
  let ?a = \<open>function_event ''::sst::{"action":"log.split","properties":{"logGroupName":"/my/group"}}''\<close>
  let ?b = \<open>function_event ''hello''\<close>
  let ?c = \<open>function_event ''x ::sst::{"action":"log.split","properties":{"logGroupName":"/other"}}''\<close>
  have a: "\<not> is_RuntimeDone ?a" and b: "\<not> is_RuntimeDone ?b" and c: "\<not> is_RuntimeDone ?c"
    by (simp_all add: is_RuntimeDone_def function_event_def)
  have nd: "\<forall>e\<in>set [?a, ?b, ?c]. \<not> is_RuntimeDone e"
    using a b c by simp
  have ds: "directives example_env [?a, ?b, ?c] = [''/my/group''] @ [''/other'']"
    by (simp add: directives_Cons directives_Nil function_event_def
        example_directive_my_group example_directive_other example_directive_hello)
  have dn: "ev_Record (runtimeDone_event ''r1'' ''12.3'') =
      RuntimeDoneRecord \<lparr>done_RequestID = ''r1'', done_DurationMs = ''12.3''\<rparr>"
    by (simp add: runtimeDone_event_def)
  show ?thesis
    by (intro conjI a b c ds flush_target_is_last_directive [OF nd ds dn])
qed

section \<open>Recognized envelopes are queued in order (C3)\<close>

text \<open>
  Claim C3 says that every batch adds one event per recognized envelope to the queue.
  After a call of \<open>Shutdown\<close> whose graceful stop failed, \<open>Events\<close> is closed: the handler
  panics in the send for the first recognized envelope and the queue stays empty, no
  event for one recognized envelope. On an open queue that already holds 1000 events
  the handler is blocked in that send, with nothing added.
\<close>

theorem queued_in_order_counterexample:
  \<open>server_Shutdown (Some ''context deadline exceeded'') started =
     Inr (started\<lparr>Events := Chan [] True,
        logs := [''[listener:Shutdown] Failed to shutdown http server gracefully: context deadline exceeded'']\<rparr>) \<and>
   recognized (ue_Type \<lparr>ue_Time = ''t3'', ue_Type = ''function'', ue_Record = ''"hello"''\<rparr>) \<and>
   handle_slice example_decoders
     [\<lparr>ue_Time = ''t3'', ue_Type = ''function'', ue_Record = ''"hello"''\<rparr>]
     (started\<lparr>Events := Chan [] True,
        logs := [''[listener:Shutdown] Failed to shutdown http server gracefully: context deadline exceeded'']\<rparr>) =
     Panic SendOnClosedChannel
       (started\<lparr>Events := Chan [] True,
        logs := [''[listener:Shutdown] Failed to shutdown http server gracefully: context deadline exceeded'']\<rparr>) \<and>
   handle_slice example_decoders
     [\<lparr>ue_Time = ''t3'', ue_Type = ''function'', ue_Record = ''"hello"''\<rparr>]
     (started\<lparr>Events := Chan (replicate 1000 (function_event ''x'')) False\<rparr>) =
     BlockedOnFull (started\<lparr>Events := Chan (replicate 1000 (function_event ''x'')) False\<rparr>)\<close>
proof -
  let ?e = \<open>\<lparr>ue_Time = ''t3'', ue_Type = ''function'', ue_Record = ''"hello"''\<rparr>\<close>
  let ?c = "started\<lparr>Events := Chan [] True,
        logs := [''[listener:Shutdown] Failed to shutdown http server gracefully: context deadline exceeded'']\<rparr>"
  let ?f = "started\<lparr>Events := Chan (replicate 1000 (function_event ''x'')) False\<rparr>"
  have 1: "server_Shutdown (Some ''context deadline exceeded'') started = Inr ?c"
    by code_simp
  have 2: "recognized (ue_Type ?e)"
    by (simp add: recognized_def)
  have l: "envelope_logs ?e = []"
    by (simp add: envelope_logs_def recognized_def)
  have "push (event_of example_decoders ?e) ?c = Panic SendOnClosedChannel ?c"
    by (rule push_closed [of _ "[]"]) simp
  then have 3: "handle_slice example_decoders [?e] ?c = Panic SendOnClosedChannel ?c"
    by (simp add: handle_envelope_recognized [OF 2] l)
  have "push (event_of example_decoders ?e) ?f = BlockedOnFull ?f"
    by (rule push_full [of _ "replicate 1000 (function_event ''x'')"])
      (simp_all add: Events_capacity_def)
  then have 4: "handle_slice example_decoders [?e] ?f = BlockedOnFull ?f"
    by (simp add: handle_envelope_recognized [OF 2] l)
  show ?thesis by (intro conjI 1 2 3 4)
qed

text \<open>
  Claim C3 as amended. While the queue is open and has room for the events of the batch
  (the events already queued and the recognized envelopes of the batch are at most
  1000 together), the handler's loop over the batch ends normally, and what it has
  added to the queue is one event per envelope with a recognized tag, in the order of
  the envelopes, each with the time and the tag of its envelope; an envelope with any
  other tag adds nothing. So the number of events queued is the number of recognized
  envelopes. The same holds for the handler run on a request body, the batch being
  what the body decodes to.
\<close>

theorem recognized_envelopes_are_queued_in_order:
  assumes "Events s = Chan q False"
    and "length q + length (filter (\<lambda>e. recognized (ue_Type e)) batch) \<le> Events_capacity"
  shows "handle_slice d batch s =
     Done (s\<lparr>Events := Chan (q @ map (event_of d) (filter (\<lambda>e. recognized (ue_Type e)) batch)) False,
             logs := logs s @ concat (map envelope_logs batch)\<rparr>) \<and>
     length (map (event_of d) (filter (\<lambda>e. recognized (ue_Type e)) batch)) =
       length (filter (\<lambda>e. recognized (ue_Type e)) batch) \<and>
     map ev_Type (map (event_of d) (filter (\<lambda>e. recognized (ue_Type e)) batch)) =
       filter recognized (map ue_Type batch) \<and>
     map ev_Time (map (event_of d) (filter (\<lambda>e. recognized (ue_Type e)) batch)) =
       map ue_Time (filter (\<lambda>e. recognized (ue_Type e)) batch) \<and>
     handler d (Inr body) s = handle_slice d (fst (unmarshalSlice d body)) s \<and>
     Events_capacity = 1000"
  using handle_slice_open [OF assms, of d]
  by (simp add: filter_map o_def event_of_def handler_def Events_capacity_def)

text \<open>
  A batch of a start event, an ignored tag, a log line, an unknown tag and a done event,
  on the empty open queue: three events are queued, in that order.
\<close>

theorem recognized_envelopes_are_queued_in_order_witness:
  \<open>Events started = Chan [] False \<and>
   length ([] :: string Event list) + length (filter (\<lambda>e. recognized (ue_Type e))
     [\<lparr>ue_Time = ''t1'', ue_Type = ''platform.start'', ue_Record = ''{"requestId":"r1","version":"$LATEST"}''\<rparr>,
      \<lparr>ue_Time = ''t2'', ue_Type = ''platform.extension'', ue_Record = ''{}''\<rparr>,
      \<lparr>ue_Time = ''t3'', ue_Type = ''function'', ue_Record = ''"hello"''\<rparr>,
      \<lparr>ue_Time = ''t4'', ue_Type = ''platform.other'', ue_Record = ''{}''\<rparr>,
      \<lparr>ue_Time = ''t5'', ue_Type = ''platform.runtimeDone'',
        ue_Record = ''{"requestId":"r1","metrics":{"durationMs":12.3}}''\<rparr>]) = 3 \<and>
   3 \<le> Events_capacity \<and>
   handle_slice example_decoders
     [\<lparr>ue_Time = ''t1'', ue_Type = ''platform.start'', ue_Record = ''{"requestId":"r1","version":"$LATEST"}''\<rparr>,
      \<lparr>ue_Time = ''t2'', ue_Type = ''platform.extension'', ue_Record = ''{}''\<rparr>,
      \<lparr>ue_Time = ''t3'', ue_Type = ''function'', ue_Record = ''"hello"''\<rparr>,
      \<lparr>ue_Time = ''t4'', ue_Type = ''platform.other'', ue_Record = ''{}''\<rparr>,
      \<lparr>ue_Time = ''t5'', ue_Type = ''platform.runtimeDone'',
        ue_Record = ''{"requestId":"r1","metrics":{"durationMs":12.3}}''\<rparr>] started =
     Done (started
       \<lparr>Events := Chan
          [\<lparr>ev_Time = ''t1'', ev_Type = ''platform.start'',
             ev_Record = StartRecord \<lparr>start_RequestID = ''r1'', Version = ''$LATEST''\<rparr>\<rparr>,
           \<lparr>ev_Time = ''t3'', ev_Type = ''function'', ev_Record = FunctionEvent ''hello''\<rparr>,
           \<lparr>ev_Time = ''t5'', ev_Type = ''platform.runtimeDone'',
             ev_Record = RuntimeDoneRecord \<lparr>done_RequestID = ''r1'', done_DurationMs = ''12.3''\<rparr>\<rparr>] False,
        logs := [''unknown event type platform.other {}'',
                 ''{"requestId":"r1","metrics":{"durationMs":12.3}}'']\<rparr>)\<close>
proof -
  let ?batch = \<open>[\<lparr>ue_Time = ''t1'', ue_Type = ''platform.start'', ue_Record = ''{"requestId":"r1","version":"$LATEST"}''\<rparr>,
      \<lparr>ue_Time = ''t2'', ue_Type = ''platform.extension'', ue_Record = ''{}''\<rparr>,
      \<lparr>ue_Time = ''t3'', ue_Type = ''function'', ue_Record = ''"hello"''\<rparr>,
      \<lparr>ue_Time = ''t4'', ue_Type = ''platform.other'', ue_Record = ''{}''\<rparr>,
      \<lparr>ue_Time = ''t5'', ue_Type = ''platform.runtimeDone'',
        ue_Record = ''{"requestId":"r1","metrics":{"durationMs":12.3}}''\<rparr>]\<close>
  have h: "Events started = Chan [] False"
    by (simp add: started_def)
  have n: "length ([] :: string Event list) +
      length (filter (\<lambda>e. recognized (ue_Type e)) ?batch) = 3"
    by (simp add: recognized_def)
  have c: "3 \<le> Events_capacity"
    by (simp add: Events_capacity_def)
  have room: "length ([] :: string Event list) +
      length (filter (\<lambda>e. recognized (ue_Type e)) ?batch) \<le> Events_capacity"
    unfolding n by (rule c)
  have q: \<open>map (event_of example_decoders) (filter (\<lambda>e. recognized (ue_Type e)) ?batch) =
      [\<lparr>ev_Time = ''t1'', ev_Type = ''platform.start'',
             ev_Record = StartRecord \<lparr>start_RequestID = ''r1'', Version = ''$LATEST''\<rparr>\<rparr>,
           \<lparr>ev_Time = ''t3'', ev_Type = ''function'', ev_Record = FunctionEvent ''hello''\<rparr>,
           \<lparr>ev_Time = ''t5'', ev_Type = ''platform.runtimeDone'',
             ev_Record = RuntimeDoneRecord \<lparr>done_RequestID = ''r1'', done_DurationMs = ''12.3''\<rparr>\<rparr>]\<close>
    by code_simp
  have l: \<open>concat (map envelope_logs ?batch) =
      [''unknown event type platform.other {}'',
       ''{"requestId":"r1","metrics":{"durationMs":12.3}}'']\<close>
    by code_simp
  have e: "logs started = []"
    by (simp add: started_def)
  from recognized_envelopes_are_queued_in_order
    [OF h room, of example_decoders, THEN conjunct1]
  have r: \<open>handle_slice example_decoders ?batch started =
     Done (started
       \<lparr>Events := Chan
          [\<lparr>ev_Time = ''t1'', ev_Type = ''platform.start'',
             ev_Record = StartRecord \<lparr>start_RequestID = ''r1'', Version = ''$LATEST''\<rparr>\<rparr>,
           \<lparr>ev_Time = ''t3'', ev_Type = ''function'', ev_Record = FunctionEvent ''hello''\<rparr>,
           \<lparr>ev_Time = ''t5'', ev_Type = ''platform.runtimeDone'',
             ev_Record = RuntimeDoneRecord \<lparr>done_RequestID = ''r1'', done_DurationMs = ''12.3''\<rparr>\<rparr>] False,
        logs := [''unknown event type platform.other {}'',
                 ''{"requestId":"r1","metrics":{"durationMs":12.3}}'']\<rparr>)\<close>
    unfolding q l by (simp add: e del: handle_slice.simps)
  show ?thesis by (intro conjI h n c r)
qed

section \<open>A record that fails to decode (C6)\<close>

text \<open>
  Claim C6 says that an envelope whose record fails to decode is logged and dropped,
  and that the rest of the batch is processed. The handler discards the error of every
  \<open>json.Unmarshal\<close>: a log line sent as a JSON object does not decode into a string, and
  the handler queues an event for it all the same, with the empty string the decoder
  left, and logs nothing. And the rest of the batch is not always processed: when
  \<open>Events\<close> is closed, the send for that envelope panics and the envelope behind it is
  never looked at.
\<close>

theorem undecodable_record_counterexample:
  \<open>decode_error example_decoders
     \<lparr>ue_Time = ''t'', ue_Type = ''function'', ue_Record = ''{"a":1}''\<rparr> = Some UnmarshalTypeError \<and>
   handle_slice example_decoders
     [\<lparr>ue_Time = ''t'', ue_Type = ''function'', ue_Record = ''{"a":1}''\<rparr>] started =
     Done (started\<lparr>Events :=
       Chan [\<lparr>ev_Time = ''t'', ev_Type = ''function'', ev_Record = FunctionEvent []\<rparr>] False\<rparr>) \<and>
   handle_slice example_decoders
     [\<lparr>ue_Time = ''t'', ue_Type = ''function'', ue_Record = ''{"a":1}''\<rparr>,
      \<lparr>ue_Time = ''t3'', ue_Type = ''function'', ue_Record = ''"hello"''\<rparr>]
     (started\<lparr>Events := Chan [] True\<rparr>) =
     Panic SendOnClosedChannel (started\<lparr>Events := Chan [] True\<rparr>)\<close>
  by code_simp

text \<open>
  Claim C6 as amended. For an envelope with a recognized tag whose record fails to
  decode, the error is ignored: no failure is logged (the only line written is the raw
  record of a \<open>platform.runtimeDone\<close> envelope, which is written whether or not it
  decodes), and the handler sends the event built from what the decoder left, as it
  does for a record that decodes. While the queue is open and not full, that event is
  queued and the loop goes on with the rest of the batch.
\<close>

theorem undecodable_record_is_still_queued:
  assumes "recognized (ue_Type evt)"
    and "decode_error d evt = Some err"
    and "Events s = Chan q False"
    and "length q < Events_capacity"
  shows "handle_envelope d evt s =
       push (event_of d evt) (s\<lparr>logs := logs s @ envelope_logs evt\<rparr>) \<and>
     handle_slice d (evt # rest) s =
       handle_slice d rest
         (s\<lparr>logs := logs s @ envelope_logs evt, Events := Chan (q @ [event_of d evt]) False\<rparr>) \<and>
     Events_capacity = 1000"
proof -
  let ?l = "s\<lparr>logs := logs s @ envelope_logs evt\<rparr>"
  have 1: "handle_envelope d evt s = push (event_of d evt) ?l"
    using assms(1) by (rule handle_envelope_recognized)
  have "Events ?l = Chan q False"
    using assms(3) by simp
  from push_open [OF this assms(4), of "event_of d evt"]
  have 2: "handle_slice d (evt # rest) s =
       handle_slice d rest
         (s\<lparr>logs := logs s @ envelope_logs evt, Events := Chan (q @ [event_of d evt]) False\<rparr>)"
    by (simp add: 1)
  have 3: "Events_capacity = 1000"
    by (simp add: Events_capacity_def)
  show ?thesis by (intro conjI 1 2 3)
qed

theorem undecodable_record_is_still_queued_witness:
  \<open>recognized (ue_Type \<lparr>ue_Time = ''t'', ue_Type = ''function'', ue_Record = ''{"a":1}''\<rparr>) \<and>
   decode_error example_decoders
     \<lparr>ue_Time = ''t'', ue_Type = ''function'', ue_Record = ''{"a":1}''\<rparr> = Some UnmarshalTypeError \<and>
   Events started = Chan [] False \<and>
   length ([] :: string Event list) < Events_capacity \<and>
   handle_slice example_decoders
     (\<lparr>ue_Time = ''t'', ue_Type = ''function'', ue_Record = ''{"a":1}''\<rparr> #
      [\<lparr>ue_Time = ''t3'', ue_Type = ''function'', ue_Record = ''"hello"''\<rparr>]) started =
     handle_slice example_decoders
       [\<lparr>ue_Time = ''t3'', ue_Type = ''function'', ue_Record = ''"hello"''\<rparr>]
       (started\<lparr>logs := logs started @
            envelope_logs \<lparr>ue_Time = ''t'', ue_Type = ''function'', ue_Record = ''{"a":1}''\<rparr>,
          Events := Chan ([] @
            [event_of example_decoders \<lparr>ue_Time = ''t'', ue_Type = ''function'', ue_Record = ''{"a":1}''\<rparr>])
            False\<rparr>) \<and>
   handle_slice example_decoders
     (\<lparr>ue_Time = ''t'', ue_Type = ''function'', ue_Record = ''{"a":1}''\<rparr> #
      [\<lparr>ue_Time = ''t3'', ue_Type = ''function'', ue_Record = ''"hello"''\<rparr>]) started =
     Done (started\<lparr>Events :=
       Chan [\<lparr>ev_Time = ''t'', ev_Type = ''function'', ev_Record = FunctionEvent []\<rparr>,
             \<lparr>ev_Time = ''t3'', ev_Type = ''function'', ev_Record = FunctionEvent ''hello''\<rparr>] False\<rparr>)\<close>
proof -
  let ?e = \<open>\<lparr>ue_Time = ''t'', ue_Type = ''function'', ue_Record = ''{"a":1}''\<rparr>\<close>
  have r: "recognized (ue_Type ?e)"
    by (simp add: recognized_def)
  have f: "decode_error example_decoders ?e = Some UnmarshalTypeError"
    by code_simp
  have h: "Events started = Chan [] False"
    by (simp add: started_def)
  have c: "length ([] :: string Event list) < Events_capacity"
    by (simp add: Events_capacity_def)
  have v: \<open>handle_slice example_decoders
     (?e # [\<lparr>ue_Time = ''t3'', ue_Type = ''function'', ue_Record = ''"hello"''\<rparr>]) started =
     Done (started\<lparr>Events :=
       Chan [\<lparr>ev_Time = ''t'', ev_Type = ''function'', ev_Record = FunctionEvent []\<rparr>,
             \<lparr>ev_Time = ''t3'', ev_Type = ''function'', ev_Record = FunctionEvent ''hello''\<rparr>] False\<rparr>)\<close>
    by code_simp
  show ?thesis
    by (intro conjI r f h c v
        undecodable_record_is_still_queued [OF r f h c, THEN conjunct2, THEN conjunct1])
qed

section \<open>Calling \<open>Shutdown\<close> again (C7)\<close>

text \<open>
  Claim C7 says that a second call of \<open>Shutdown\<close> never panics, whether or not the first
  graceful stop succeeded. The code closes \<open>Events\<close> before it looks at the error, and
  clears \<open>httpServer\<close> only when there was none. After a first call whose graceful stop
  failed (the one second deadline passed), \<open>httpServer\<close> is still set and \<open>Events\<close> is
  closed: the second call closes the closed channel and panics.
\<close>

theorem second_Shutdown_after_failed_stop_panics:
  "server_Shutdown (Some ''context deadline exceeded'') started =
     Inr (started\<lparr>Events := Chan [] True,
        logs := [''[listener:Shutdown] Failed to shutdown http server gracefully: context deadline exceeded'']\<rparr>) \<and>
   server_Shutdown None
     (started\<lparr>Events := Chan [] True,
        logs := [''[listener:Shutdown] Failed to shutdown http server gracefully: context deadline exceeded'']\<rparr>) =
     Inl CloseOfClosedChannel"
  by code_simp

section \<open>\<open>PlatformRuntimeDone\<close>: two lines, then the flush (C4)\<close>

text \<open>
  Claim C4. When the loop receives a \<open>PlatformRuntimeDone\<close> it appends two lines to the
  buffer, the \<open>END\<close> line with the request id and then the \<open>REPORT\<close> line, in which the
  billed duration is the duration printed a second time and the maximum memory used is
  \<open>0\<close>; it then runs the put loop on a \<open>PutLogEvents\<close> input that holds the buffer, for
  the group in \<open>logGroupName\<close>, and leaves the loop over the channel. Nothing else is
  received: the events \<open>q\<close> behind the \<open>PlatformRuntimeDone\<close> are still in the channel,
  and the buffer is the old one with the two lines.
\<close>

theorem runtimeDone_appends_end_and_report_then_flushes:
  "range_Events env (\<lparr>ev_Time = t, ev_Type = ty, ev_Record = RuntimeDoneRecord v\<rparr> # q) c rs w =
     after_flush
       (put_loop env
          \<lparr>put_LogGroupName = logGroupName w, put_LogStreamName = streamName env,
           LogEvents = log_events env (ticks w) (buffer w @ [end_line v, report_line env v])\<rparr> rs
          (w\<lparr>Events := Chan q c,
             buffer := buffer w @ [end_line v, report_line env v],
             logs := logs w @ [''flushing buffer''],
             ticks := ticks w + (length (buffer w) + 2)\<rparr>)) \<and>
   buffer (snd (snd (range_Events env
       (\<lparr>ev_Time = t, ev_Type = ty, ev_Record = RuntimeDoneRecord v\<rparr> # q) c rs w))) =
     buffer w @ [end_line v, report_line env v] \<and>
   Events (snd (snd (range_Events env
       (\<lparr>ev_Time = t, ev_Type = ty, ev_Record = RuntimeDoneRecord v\<rparr> # q) c rs w))) = Chan q c \<and>
   end_line v = ''END RequestId: '' @ done_RequestID v \<and>
   report_line env v =
     ''REPORT RequestId: '' @ done_RequestID v @ [CHR 0x09] @
     ''Duration: '' @ format_float env (done_DurationMs v) @ '' ms'' @ [CHR 0x09] @
     ''Billed Duration: '' @ format_float env (done_DurationMs v) @ '' ms'' @ [CHR 0x09] @
     ''Memory Size: '' @ memory_size env @ '' MB'' @ [CHR 0x09] @
     ''Max Memory Used: 0 MB''"
proof -
  let ?evt = "\<lparr>ev_Time = t, ev_Type = ty, ev_Record = RuntimeDoneRecord v\<rparr>"
  let ?put = "\<lparr>put_LogGroupName = logGroupName w, put_LogStreamName = streamName env,
           LogEvents = log_events env (ticks w) (buffer w @ [end_line v, report_line env v])\<rparr>"
  let ?w = "w\<lparr>Events := Chan q c,
             buffer := buffer w @ [end_line v, report_line env v],
             logs := logs w @ [''flushing buffer''],
             ticks := ticks w + (length (buffer w) + 2)\<rparr>"
  have eq: "range_Events env (?evt # q) c rs w = after_flush (put_loop env ?put rs ?w)"
    using range_Events_RuntimeDone [of ?evt v env q c rs w]
    by (simp add: on_RuntimeDone_put_loop del: range_Events.simps)
  have b: "buffer (snd (snd (range_Events env (?evt # q) c rs w))) =
      buffer w @ [end_line v, report_line env v]"
    unfolding eq after_flush_world using put_loop_kept [of env ?put rs ?w] by simp
  have e: "Events (snd (snd (range_Events env (?evt # q) c rs w))) = Chan q c"
    unfolding eq after_flush_world using put_loop_kept [of env ?put rs ?w] by simp
  have l1: "end_line v = ''END RequestId: '' @ done_RequestID v"
    by (simp add: end_line_def)
  have l2: "report_line env v =
     ''REPORT RequestId: '' @ done_RequestID v @ [CHR 0x09] @
     ''Duration: '' @ format_float env (done_DurationMs v) @ '' ms'' @ [CHR 0x09] @
     ''Billed Duration: '' @ format_float env (done_DurationMs v) @ '' ms'' @ [CHR 0x09] @
     ''Memory Size: '' @ memory_size env @ '' MB'' @ [CHR 0x09] @
     ''Max Memory Used: 0 MB''"
    by (simp add: report_line_def)
  show ?thesis by (intro conjI eq b e l1 l2)
qed

text \<open>
  One whole turn on the example: a directive, a line, the \<open>PlatformRuntimeDone\<close> and a
  late line. The put carries the line and the two appended lines; the late line stays
  in the channel.
\<close>

theorem runtimeDone_appends_end_and_report_then_flushes_witness:
  \<open>range_Events example_env
     [function_event ''::sst::{"action":"log.split","properties":{"logGroupName":"/my/group"}}'',
      function_event ''hello'',
      runtimeDone_event ''r1'' ''12.3'',
      function_event ''late''] False [None] started =
     (BreakOuterloop, [],
      \<lparr>httpServer = True, Events = Chan [function_event ''late''] False, logs = [''flushing buffer''],
       buffer = [''hello'', ''END RequestId: r1'',
          ''REPORT RequestId: r1'' @ [CHR 0x09] @ ''Duration: 12.3 ms'' @ [CHR 0x09] @
          ''Billed Duration: 12.3 ms'' @ [CHR 0x09] @ ''Memory Size: 128 MB'' @ [CHR 0x09] @
          ''Max Memory Used: 0 MB''],
       logGroupName = ''/my/group'',
       calls = [PutLogEvents \<lparr>put_LogGroupName = ''/my/group'', put_LogStreamName = ''2026/01/01/stream'',
          LogEvents = [\<lparr>Message = ''hello'', Timestamp = 1700000000000\<rparr>,
            \<lparr>Message = ''END RequestId: r1'', Timestamp = 1700000000000\<rparr>,
            \<lparr>Message = ''REPORT RequestId: r1'' @ [CHR 0x09] @ ''Duration: 12.3 ms'' @ [CHR 0x09] @
          ''Billed Duration: 12.3 ms'' @ [CHR 0x09] @ ''Memory Size: 128 MB'' @ [CHR 0x09] @
          ''Max Memory Used: 0 MB'', Timestamp = 1700000000000\<rparr>]\<rparr>],
       ticks = 3\<rparr>)\<close>
proof -
  let ?w = \<open>accumulate example_env
     [function_event ''::sst::{"action":"log.split","properties":{"logGroupName":"/my/group"}}'',
      function_event ''hello''] started\<close>
  have nd: \<open>\<forall>e\<in>set [function_event ''::sst::{"action":"log.split","properties":{"logGroupName":"/my/group"}}'',
      function_event ''hello'']. \<not> is_RuntimeDone e\<close>
    by (simp add: is_RuntimeDone_def function_event_def)
  have a: \<open>?w = started\<lparr>buffer := [''hello''], logGroupName := ''/my/group''\<rparr>\<close>
    by (simp add: accumulate_def accumulate_event_def function_event_def on_FunctionEvent_directive
        example_directive_my_group example_directive_hello started_def)
  have p: \<open>after_flush (put_loop example_env
          \<lparr>put_LogGroupName = logGroupName ?w, put_LogStreamName = streamName example_env,
           LogEvents = log_events example_env (ticks ?w)
             (buffer ?w @ [end_line \<lparr>done_RequestID = ''r1'', done_DurationMs = ''12.3''\<rparr>,
                report_line example_env \<lparr>done_RequestID = ''r1'', done_DurationMs = ''12.3''\<rparr>])\<rparr> [None]
          (?w\<lparr>Events := Chan [function_event ''late''] False,
             buffer := buffer ?w @ [end_line \<lparr>done_RequestID = ''r1'', done_DurationMs = ''12.3''\<rparr>,
                report_line example_env \<lparr>done_RequestID = ''r1'', done_DurationMs = ''12.3''\<rparr>],
             logs := logs ?w @ [''flushing buffer''],
             ticks := ticks ?w + (length (buffer ?w) + 2)\<rparr>)) =
     (BreakOuterloop, [],
      \<lparr>httpServer = True, Events = Chan [function_event ''late''] False, logs = [''flushing buffer''],
       buffer = [''hello'', ''END RequestId: r1'',
          ''REPORT RequestId: r1'' @ [CHR 0x09] @ ''Duration: 12.3 ms'' @ [CHR 0x09] @
          ''Billed Duration: 12.3 ms'' @ [CHR 0x09] @ ''Memory Size: 128 MB'' @ [CHR 0x09] @
          ''Max Memory Used: 0 MB''],
       logGroupName = ''/my/group'',
       calls = [PutLogEvents \<lparr>put_LogGroupName = ''/my/group'', put_LogStreamName = ''2026/01/01/stream'',
          LogEvents = [\<lparr>Message = ''hello'', Timestamp = 1700000000000\<rparr>,
            \<lparr>Message = ''END RequestId: r1'', Timestamp = 1700000000000\<rparr>,
            \<lparr>Message = ''REPORT RequestId: r1'' @ [CHR 0x09] @ ''Duration: 12.3 ms'' @ [CHR 0x09] @
          ''Billed Duration: 12.3 ms'' @ [CHR 0x09] @ ''Memory Size: 128 MB'' @ [CHR 0x09] @
          ''Max Memory Used: 0 MB'', Timestamp = 1700000000000\<rparr>]\<rparr>],
       ticks = 3\<rparr>)\<close>
    unfolding a by code_simp
  have split: \<open>range_Events example_env
     ([function_event ''::sst::{"action":"log.split","properties":{"logGroupName":"/my/group"}}'',
      function_event ''hello''] @
      runtimeDone_event ''r1'' ''12.3'' # [function_event ''late'']) False [None] started =
    range_Events example_env
      (\<lparr>ev_Time = ''t'', ev_Type = ''platform.runtimeDone'',
        ev_Record = RuntimeDoneRecord \<lparr>done_RequestID = ''r1'', done_DurationMs = ''12.3''\<rparr>\<rparr> #
       [function_event ''late'']) False [None] ?w\<close>
    unfolding range_Events_accumulate [OF nd] runtimeDone_event_def ..
  from runtimeDone_appends_end_and_report_then_flushes
    [of example_env "''t''" "''platform.runtimeDone''"
      "\<lparr>done_RequestID = ''r1'', done_DurationMs = ''12.3''\<rparr>" "[function_event ''late'']"
      False "[None]" ?w]
  have \<open>range_Events example_env
      (\<lparr>ev_Time = ''t'', ev_Type = ''platform.runtimeDone'',
        ev_Record = RuntimeDoneRecord \<lparr>done_RequestID = ''r1'', done_DurationMs = ''12.3''\<rparr>\<rparr> #
       [function_event ''late'']) False [None] ?w =
     (BreakOuterloop, [],
      \<lparr>httpServer = True, Events = Chan [function_event ''late''] False, logs = [''flushing buffer''],
       buffer = [''hello'', ''END RequestId: r1'',
          ''REPORT RequestId: r1'' @ [CHR 0x09] @ ''Duration: 12.3 ms'' @ [CHR 0x09] @
          ''Billed Duration: 12.3 ms'' @ [CHR 0x09] @ ''Memory Size: 128 MB'' @ [CHR 0x09] @
          ''Max Memory Used: 0 MB''],
       logGroupName = ''/my/group'',
       calls = [PutLogEvents \<lparr>put_LogGroupName = ''/my/group'', put_LogStreamName = ''2026/01/01/stream'',
          LogEvents = [\<lparr>Message = ''hello'', Timestamp = 1700000000000\<rparr>,
            \<lparr>Message = ''END RequestId: r1'', Timestamp = 1700000000000\<rparr>,
            \<lparr>Message = ''REPORT RequestId: r1'' @ [CHR 0x09] @ ''Duration: 12.3 ms'' @ [CHR 0x09] @
          ''Billed Duration: 12.3 ms'' @ [CHR 0x09] @ ''Memory Size: 128 MB'' @ [CHR 0x09] @
          ''Max Memory Used: 0 MB'', Timestamp = 1700000000000\<rparr>]\<rparr>],
       ticks = 3\<rparr>)\<close>
    unfolding p by (rule conjunct1)
  with split show ?thesis by simp
qed

section \<open>A directive is consumed, not appended (C9)\<close>

text \<open>
  Claim C9. A log line matches the marker, its payload decodes to an action
  \<open>log.split\<close>, and the properties of the action decode. Then the line sets
  \<open>logGroupName\<close> to the group name of the properties and changes nothing else: the
  buffer is as before, so the line is not among the messages of the flush, and the loop
  goes on with the next event.
\<close>

theorem directive_line_sets_group_and_is_not_appended:
  assumes "1 < length (FindStringSubmatch v)"
    and "unmarshalAction env (FindStringSubmatch v ! 1) = (action, None)"
    and "Action action = ''log.split''"
    and "unmarshalLogSplitAction env (Properties action) = (logSplitAction, None)"
    and "ev_Record evt = FunctionEvent v"
  shows "on_FunctionEvent env v w = w\<lparr>logGroupName := LogGroupName logSplitAction\<rparr> \<and>
     buffer (on_FunctionEvent env v w) = buffer w \<and>
     range_Events env (evt # q) c rs w =
       range_Events env q c rs (w\<lparr>logGroupName := LogGroupName logSplitAction\<rparr>)"
proof -
  have 1: "on_FunctionEvent env v w = w\<lparr>logGroupName := LogGroupName logSplitAction\<rparr>"
    using assms(1-4) by (simp add: on_FunctionEvent_def)
  have 2: "buffer (on_FunctionEvent env v w) = buffer w"
    unfolding 1 by simp
  have 3: "range_Events env (evt # q) c rs w =
       range_Events env q c rs (w\<lparr>logGroupName := LogGroupName logSplitAction\<rparr>)"
    using assms(5) 1 by simp
  show ?thesis by (intro conjI 1 2 3)
qed

theorem directive_line_sets_group_and_is_not_appended_witness:
  \<open>1 < length (FindStringSubmatch
      ''::sst::{"action":"log.split","properties":{"logGroupName":"/my/group"}}'') \<and>
   unmarshalAction example_env (FindStringSubmatch
      ''::sst::{"action":"log.split","properties":{"logGroupName":"/my/group"}}'' ! 1) =
     (\<lparr>Action = ''log.split'', Properties = ''{"logGroupName":"/my/group"}''\<rparr>, None) \<and>
   Action \<lparr>Action = ''log.split'', Properties = ''{"logGroupName":"/my/group"}''\<rparr> = ''log.split'' \<and>
   unmarshalLogSplitAction example_env
     (Properties \<lparr>Action = ''log.split'', Properties = ''{"logGroupName":"/my/group"}''\<rparr>) =
     (\<lparr>LogGroupName = ''/my/group''\<rparr>, None) \<and>
   on_FunctionEvent example_env
     ''::sst::{"action":"log.split","properties":{"logGroupName":"/my/group"}}''
     (started\<lparr>buffer := [''hello'']\<rparr>) =
     started\<lparr>buffer := [''hello''], logGroupName := LogGroupName \<lparr>LogGroupName = ''/my/group''\<rparr>\<rparr> \<and>
   buffer (on_FunctionEvent example_env
     ''::sst::{"action":"log.split","properties":{"logGroupName":"/my/group"}}''
     (started\<lparr>buffer := [''hello'']\<rparr>)) = [''hello'']\<close>
proof -
  let ?v = \<open>''::sst::{"action":"log.split","properties":{"logGroupName":"/my/group"}}''\<close>
  let ?a = \<open>\<lparr>Action = ''log.split'', Properties = ''{"logGroupName":"/my/group"}''\<rparr>\<close>
  have 1: "1 < length (FindStringSubmatch ?v)"
    by code_simp
  have 2: "unmarshalAction example_env (FindStringSubmatch ?v ! 1) = (?a, None)"
    by code_simp
  have 3: "Action ?a = ''log.split''"
    by simp
  have 4: "unmarshalLogSplitAction example_env (Properties ?a) = (\<lparr>LogGroupName = ''/my/group''\<rparr>, None)"
    by code_simp
  have 5: "ev_Record (function_event ?v) = FunctionEvent ?v"
    by (simp add: function_event_def)
  from directive_line_sets_group_and_is_not_appended
    [OF 1 2 3 4 5, of "started\<lparr>buffer := [''hello'']\<rparr>" "[]" False "[]"]
  have "on_FunctionEvent example_env ?v (started\<lparr>buffer := [''hello'']\<rparr>) =
      started\<lparr>buffer := [''hello''], logGroupName := LogGroupName \<lparr>LogGroupName = ''/my/group''\<rparr>\<rparr>"
    and "buffer (on_FunctionEvent example_env ?v (started\<lparr>buffer := [''hello'']\<rparr>)) = [''hello'']"
    by simp_all
  then show ?thesis by (intro conjI 1 2 3 4)
qed

section \<open>A marker whose payload does not decode (C1)\<close>

text \<open>
  Claim C1 says that a line that matches the marker and whose payload fails to decode is
  appended to the buffer as it is. In the code each failed test under the marker ends in
  \<open>continue\<close>: the line \<open>::sst::{\<close> matches the marker, its payload \<open>{\<close> is not JSON,
  and the buffer is left empty. In a whole turn the put carries the two lines of the
  \<open>PlatformRuntimeDone\<close> and nothing else.
\<close>

theorem undecodable_directive_line_counterexample:
  \<open>1 < length (FindStringSubmatch ''::sst::{'') \<and>
   unmarshalAction example_env (FindStringSubmatch ''::sst::{'' ! 1) =
     (\<lparr>Action = [], Properties = []\<rparr>, Some SyntaxError) \<and>
   buffer (on_FunctionEvent example_env ''::sst::{'' started) = [] \<and>
   buffer (on_FunctionEvent example_env ''::sst::{'' started) \<noteq> buffer started @ [''::sst::{''] \<and>
   calls (snd (snd (range_Events example_env
      [function_event ''::sst::{'', runtimeDone_event ''r1'' ''12.3''] False [None] started))) =
     [PutLogEvents \<lparr>put_LogGroupName = [], put_LogStreamName = ''2026/01/01/stream'',
        LogEvents = [\<lparr>Message = ''END RequestId: r1'', Timestamp = 1700000000000\<rparr>,
          \<lparr>Message = ''REPORT RequestId: r1'' @ [CHR 0x09] @ ''Duration: 12.3 ms'' @ [CHR 0x09] @
            ''Billed Duration: 12.3 ms'' @ [CHR 0x09] @ ''Memory Size: 128 MB'' @ [CHR 0x09] @
            ''Max Memory Used: 0 MB'', Timestamp = 1700000000000\<rparr>]\<rparr>]\<close>
  by code_simp

text \<open>
  Claim C1 as amended. A log line that matches the marker and whose payload fails to
  decode (the action does not decode, or it is a \<open>log.split\<close> action whose properties do
  not decode) is consumed: it is not appended to the buffer, \<open>logGroupName\<close> is
  unchanged, nothing else changes, and the loop goes on with the next event.
\<close>

theorem undecodable_directive_line_is_dropped:
  assumes "1 < length (FindStringSubmatch v)"
    and "unmarshalAction env (FindStringSubmatch v ! 1) = (action, e)"
    and "e \<noteq> None \<or>
         (Action action = ''log.split'' \<and> snd (unmarshalLogSplitAction env (Properties action)) \<noteq> None)"
    and "ev_Record evt = FunctionEvent v"
  shows "on_FunctionEvent env v w = w \<and>
     range_Events env (evt # q) c rs w = range_Events env q c rs w"
proof -
  have 1: "on_FunctionEvent env v w = w"
    using assms(1-3)
    by (cases e; cases "unmarshalLogSplitAction env (Properties action)")
      (auto simp: on_FunctionEvent_def)
  have 2: "range_Events env (evt # q) c rs w = range_Events env q c rs w"
    using assms(4) 1 by simp
  show ?thesis by (intro conjI 1 2)
qed

theorem undecodable_directive_line_is_dropped_witness:
  \<open>1 < length (FindStringSubmatch ''::sst::{'') \<and>
   unmarshalAction example_env (FindStringSubmatch ''::sst::{'' ! 1) =
     (\<lparr>Action = [], Properties = []\<rparr>, Some SyntaxError) \<and>
   Some SyntaxError \<noteq> None \<and>
   on_FunctionEvent example_env ''::sst::{'' (started\<lparr>buffer := [''hello''], logGroupName := ''/g''\<rparr>) =
     started\<lparr>buffer := [''hello''], logGroupName := ''/g''\<rparr> \<and>
   range_Events example_env (function_event ''::sst::{'' # [function_event ''late'']) False []
       (started\<lparr>buffer := [''hello''], logGroupName := ''/g''\<rparr>) =
     range_Events example_env [function_event ''late''] False []
       (started\<lparr>buffer := [''hello''], logGroupName := ''/g''\<rparr>)\<close>
proof -
  have 1: "1 < length (FindStringSubmatch ''::sst::{'')"
    by code_simp
  have 2: "unmarshalAction example_env (FindStringSubmatch ''::sst::{'' ! 1) =
     (\<lparr>Action = [], Properties = []\<rparr>, Some SyntaxError)"
    by code_simp
  have 3: "Some SyntaxError \<noteq> None"
    by simp
  have d: "Some SyntaxError \<noteq> None \<or>
         (Action \<lparr>Action = [], Properties = []\<rparr> = ''log.split'' \<and>
          snd (unmarshalLogSplitAction example_env (Properties \<lparr>Action = [], Properties = []\<rparr>)) \<noteq> None)"
    by simp
  have 4: "ev_Record (function_event ''::sst::{'') = FunctionEvent ''::sst::{''"
    by (simp add: function_event_def)
  show ?thesis
    by (intro conjI 1 2 3 undecodable_directive_line_is_dropped [OF 1 2 d 4, THEN conjunct1]
        undecodable_directive_line_is_dropped [OF 1 2 d 4, THEN conjunct2])
qed

section \<open>The \<open>SHUTDOWN\<close> event (C8)\<close>

text \<open>
  Claim C8 says that on a \<open>SHUTDOWN\<close> event the coordinator stops the listener, that is,
  calls its \<open>Shutdown\<close>, and then exits. \<open>main\<close> returns and calls nothing: started from
  the state after \<open>server.Start\<close>, it returns with \<open>httpServer\<close> still set and \<open>Events\<close>
  still open, which is not the state a call of \<open>Shutdown\<close> leaves.
\<close>

theorem shutdown_event_counterexample:
  "main_loop example_env [EventNextResponse (next_event ''SHUTDOWN'' ''r1'')] [] started =
     (Returned, [], started) \<and>
   httpServer started \<and> Events started = Chan [] False \<and>
   server_Shutdown None started = Inr (started\<lparr>httpServer := False, Events := Chan [] True\<rparr>) \<and>
   started \<noteq> started\<lparr>httpServer := False, Events := Chan [] True\<rparr>"
  by code_simp

text \<open>
  Claim C8 as amended. On a \<open>SHUTDOWN\<close> event \<open>main\<close> returns, so the process exits; it
  does not call the listener's \<open>Shutdown\<close>: \<open>httpServer\<close> and \<open>Events\<close> are as they were,
  no call is made on the client, and only the two variables of the loop are reset.
\<close>

theorem shutdown_event_returns_without_stopping_listener:
  assumes "EventType res = extension_Shutdown"
  shows "main_loop env (EventNextResponse res # ps) rs w =
     (Returned, rs, w\<lparr>logGroupName := [], buffer := []\<rparr>) \<and>
     httpServer (snd (snd (main_loop env (EventNextResponse res # ps) rs w))) = httpServer w \<and>
     Events (snd (snd (main_loop env (EventNextResponse res # ps) rs w))) = Events w"
  using assms by (simp add: extension_Shutdown_def extension_Invoke_def)

theorem shutdown_event_returns_without_stopping_listener_witness:
  "EventType (next_event ''SHUTDOWN'' ''r1'') = extension_Shutdown \<and>
   main_loop example_env
     (EventNextResponse (next_event ''SHUTDOWN'' ''r1'') # [EventNextResponse (next_event ''INVOKE'' ''r2'')])
     [None] (started\<lparr>Events := Chan [function_event ''late''] False\<rparr>) =
     (Returned, [None],
      started\<lparr>Events := Chan [function_event ''late''] False, logGroupName := [], buffer := []\<rparr>) \<and>
   httpServer (snd (snd (main_loop example_env
     (EventNextResponse (next_event ''SHUTDOWN'' ''r1'') # [EventNextResponse (next_event ''INVOKE'' ''r2'')])
     [None] (started\<lparr>Events := Chan [function_event ''late''] False\<rparr>)))) = True"
proof -
  have h: "EventType (next_event ''SHUTDOWN'' ''r1'') = extension_Shutdown"
    by (simp add: next_event_def extension_Shutdown_def)
  from shutdown_event_returns_without_stopping_listener
    [OF h, of example_env "[EventNextResponse (next_event ''INVOKE'' ''r2'')]" "[None]"
      "started\<lparr>Events := Chan [function_event ''late''] False\<rparr>"]
  have "main_loop example_env
     (EventNextResponse (next_event ''SHUTDOWN'' ''r1'') # [EventNextResponse (next_event ''INVOKE'' ''r2'')])
     [None] (started\<lparr>Events := Chan [function_event ''late''] False\<rparr>) =
     (Returned, [None],
      started\<lparr>Events := Chan [function_event ''late''] False, logGroupName := [], buffer := []\<rparr>)"
    and "httpServer (snd (snd (main_loop example_env
     (EventNextResponse (next_event ''SHUTDOWN'' ''r1'') # [EventNextResponse (next_event ''INVOKE'' ''r2'')])
     [None] (started\<lparr>Events := Chan [function_event ''late''] False\<rparr>)))) = True"
    by (simp_all add: started_def del: main_loop.simps)
  then show ?thesis by (intro conjI h)
qed

section \<open>The flush does not look at the request id (C10)\<close>

text \<open>
  Claim C10. After an \<open>INVOKE\<close> event the loop accumulates the events in front of the
  first \<open>PlatformRuntimeDone\<close> of the channel and flushes on that event, then polls
  again. No hypothesis relates the request id of the \<open>INVOKE\<close> event to the one of the
  \<open>PlatformRuntimeDone\<close>, and the turn is the same whatever request id the \<open>INVOKE\<close>
  event carries: the two are never compared.
\<close>

theorem flush_on_first_RuntimeDone_whatever_its_requestId:
  assumes "EventType res = extension_Invoke"
    and "Events w = Chan (evs @ evt # q) c"
    and "\<forall>e\<in>set evs. \<not> is_RuntimeDone e"
    and "ev_Record evt = RuntimeDoneRecord v"
  shows "main_loop env (EventNextResponse res # ps) rs w =
     (case on_RuntimeDone env v rs
             ((accumulate env evs (w\<lparr>logGroupName := [], buffer := []\<rparr>))\<lparr>Events := Chan q c\<rparr>) of
        (True, rs', w') \<Rightarrow> main_loop env ps rs' w'
      | (False, rs', w') \<Rightarrow> (WaitingOnClient, rs', w')) \<and>
     main_loop env (EventNextResponse (res\<lparr>RequestID := r\<rparr>) # ps) rs w =
       main_loop env (EventNextResponse res # ps) rs w"
proof -
  let ?w1 = "w\<lparr>logGroupName := [], buffer := []\<rparr>"
  have r: "range_Events env (evs @ evt # q) c rs ?w1 =
      after_flush (on_RuntimeDone env v rs ((accumulate env evs ?w1)\<lparr>Events := Chan q c\<rparr>))"
    using assms(3,4)
    by (simp add: range_Events_accumulate range_Events_RuntimeDone del: range_Events.simps)
  obtain b rs' w' where
    o: "on_RuntimeDone env v rs ((accumulate env evs ?w1)\<lparr>Events := Chan q c\<rparr>) = (b, rs', w')"
    by (cases "on_RuntimeDone env v rs ((accumulate env evs ?w1)\<lparr>Events := Chan q c\<rparr>)")
  have 1: "main_loop env (EventNextResponse res # ps) rs w =
     (case on_RuntimeDone env v rs ((accumulate env evs ?w1)\<lparr>Events := Chan q c\<rparr>) of
        (True, rs', w') \<Rightarrow> main_loop env ps rs' w'
      | (False, rs', w') \<Rightarrow> (WaitingOnClient, rs', w'))"
    using assms(1,2) r o
    by (cases b) (simp_all add: after_flush_def del: range_Events.simps)
  have 2: "main_loop env (EventNextResponse (res\<lparr>RequestID := r\<rparr>) # ps) rs w =
       main_loop env (EventNextResponse res # ps) rs w"
    by (simp add: Let_def del: range_Events.simps cong del: if_weak_cong)
  show ?thesis by (intro conjI 1 2)
qed

text \<open>
  The \<open>INVOKE\<close> event is for request \<open>r1\<close>, the \<open>PlatformRuntimeDone\<close> in the channel for
  request \<open>r2\<close>: the loop flushes on it, with the \<open>END\<close> line of \<open>r2\<close>, and then waits in
  the next poll.
\<close>

theorem flush_on_first_RuntimeDone_whatever_its_requestId_witness:
  "EventType (next_event ''INVOKE'' ''r1'') = extension_Invoke \<and>
   Events (started\<lparr>Events :=
       Chan ([function_event ''hello''] @ runtimeDone_event ''r2'' ''12.3'' # [function_event ''late''])
         False\<rparr>) =
     Chan ([function_event ''hello''] @ runtimeDone_event ''r2'' ''12.3'' # [function_event ''late'']) False \<and>
   \<not> is_RuntimeDone (function_event ''hello'') \<and>
   ev_Record (runtimeDone_event ''r2'' ''12.3'') =
     RuntimeDoneRecord \<lparr>done_RequestID = ''r2'', done_DurationMs = ''12.3''\<rparr> \<and>
   main_loop example_env (EventNextResponse (next_event ''INVOKE'' ''r1'') # []) [None]
     (started\<lparr>Events :=
       Chan ([function_event ''hello''] @ runtimeDone_event ''r2'' ''12.3'' # [function_event ''late''])
         False\<rparr>) =
     (WaitingInEventNext, [],
      \<lparr>httpServer = True, Events = Chan [function_event ''late''] False, logs = [''flushing buffer''],
       buffer = [''hello'', ''END RequestId: r2'',
          ''REPORT RequestId: r2'' @ [CHR 0x09] @ ''Duration: 12.3 ms'' @ [CHR 0x09] @
          ''Billed Duration: 12.3 ms'' @ [CHR 0x09] @ ''Memory Size: 128 MB'' @ [CHR 0x09] @
          ''Max Memory Used: 0 MB''],
       logGroupName = [],
       calls = [PutLogEvents \<lparr>put_LogGroupName = [], put_LogStreamName = ''2026/01/01/stream'',
          LogEvents = [\<lparr>Message = ''hello'', Timestamp = 1700000000000\<rparr>,
            \<lparr>Message = ''END RequestId: r2'', Timestamp = 1700000000000\<rparr>,
            \<lparr>Message = ''REPORT RequestId: r2'' @ [CHR 0x09] @ ''Duration: 12.3 ms'' @ [CHR 0x09] @
          ''Billed Duration: 12.3 ms'' @ [CHR 0x09] @ ''Memory Size: 128 MB'' @ [CHR 0x09] @
          ''Max Memory Used: 0 MB'', Timestamp = 1700000000000\<rparr>]\<rparr>],
       ticks = 3\<rparr>)"
proof -
  let ?w = "started\<lparr>Events :=
       Chan ([function_event ''hello''] @ runtimeDone_event ''r2'' ''12.3'' # [function_event ''late''])
         False\<rparr>"
  let ?v = "\<lparr>done_RequestID = ''r2'', done_DurationMs = ''12.3''\<rparr>"
  have 1: "EventType (next_event ''INVOKE'' ''r1'') = extension_Invoke"
    by (simp add: next_event_def extension_Invoke_def)
  have 2: "Events ?w =
     Chan ([function_event ''hello''] @ runtimeDone_event ''r2'' ''12.3'' # [function_event ''late'']) False"
    by simp
  have 3: "\<not> is_RuntimeDone (function_event ''hello'')"
    by (simp add: is_RuntimeDone_def function_event_def)
  have nd3: "\<forall>e\<in>set [function_event ''hello'']. \<not> is_RuntimeDone e"
    using 3 by simp
  have 4: "ev_Record (runtimeDone_event ''r2'' ''12.3'') = RuntimeDoneRecord ?v"
    by (simp add: runtimeDone_event_def)
  have o: "(case on_RuntimeDone example_env ?v [None]
             ((accumulate example_env [function_event ''hello'']
                 (?w\<lparr>logGroupName := [], buffer := []\<rparr>))\<lparr>Events := Chan [function_event ''late''] False\<rparr>) of
        (True, rs', w') \<Rightarrow> main_loop example_env [] rs' w'
      | (False, rs', w') \<Rightarrow> (WaitingOnClient, rs', w')) =
     (WaitingInEventNext, [],
      \<lparr>httpServer = True, Events = Chan [function_event ''late''] False, logs = [''flushing buffer''],
       buffer = [''hello'', ''END RequestId: r2'',
          ''REPORT RequestId: r2'' @ [CHR 0x09] @ ''Duration: 12.3 ms'' @ [CHR 0x09] @
          ''Billed Duration: 12.3 ms'' @ [CHR 0x09] @ ''Memory Size: 128 MB'' @ [CHR 0x09] @
          ''Max Memory Used: 0 MB''],
       logGroupName = [],
       calls = [PutLogEvents \<lparr>put_LogGroupName = [], put_LogStreamName = ''2026/01/01/stream'',
          LogEvents = [\<lparr>Message = ''hello'', Timestamp = 1700000000000\<rparr>,
            \<lparr>Message = ''END RequestId: r2'', Timestamp = 1700000000000\<rparr>,
            \<lparr>Message = ''REPORT RequestId: r2'' @ [CHR 0x09] @ ''Duration: 12.3 ms'' @ [CHR 0x09] @
          ''Billed Duration: 12.3 ms'' @ [CHR 0x09] @ ''Memory Size: 128 MB'' @ [CHR 0x09] @
          ''Max Memory Used: 0 MB'', Timestamp = 1700000000000\<rparr>]\<rparr>],
       ticks = 3\<rparr>)"
    by code_simp
  from flush_on_first_RuntimeDone_whatever_its_requestId
    [OF 1 2 nd3 4, of example_env "[]" "[None]", THEN conjunct1]
  have 5: "main_loop example_env (EventNextResponse (next_event ''INVOKE'' ''r1'') # []) [None] ?w =
     (WaitingInEventNext, [],
      \<lparr>httpServer = True, Events = Chan [function_event ''late''] False, logs = [''flushing buffer''],
       buffer = [''hello'', ''END RequestId: r2'',
          ''REPORT RequestId: r2'' @ [CHR 0x09] @ ''Duration: 12.3 ms'' @ [CHR 0x09] @
          ''Billed Duration: 12.3 ms'' @ [CHR 0x09] @ ''Memory Size: 128 MB'' @ [CHR 0x09] @
          ''Max Memory Used: 0 MB''],
       logGroupName = [],
       calls = [PutLogEvents \<lparr>put_LogGroupName = [], put_LogStreamName = ''2026/01/01/stream'',
          LogEvents = [\<lparr>Message = ''hello'', Timestamp = 1700000000000\<rparr>,
            \<lparr>Message = ''END RequestId: r2'', Timestamp = 1700000000000\<rparr>,
            \<lparr>Message = ''REPORT RequestId: r2'' @ [CHR 0x09] @ ''Duration: 12.3 ms'' @ [CHR 0x09] @
          ''Billed Duration: 12.3 ms'' @ [CHR 0x09] @ ''Memory Size: 128 MB'' @ [CHR 0x09] @
          ''Max Memory Used: 0 MB'', Timestamp = 1700000000000\<rparr>]\<rparr>],
       ticks = 3\<rparr>)"
    unfolding o .
  show ?thesis by (intro conjI 1 2 3 4 5)
qed

end
